theory Spec2Isabelle
  imports
    Complex_Main
    "HOL-Library.Multiset"
    "HOL-Library.Char_ord"
    "HOL-Library.List_Lexorder"
    "HOL-Library.Product_Lexorder"
    "HOL-Library.Word"
begin

section \<open>Python values, errors and string helpers\<close>

text \<open>
  The completion models (\<^verbatim>\<open>qutebrowser/models/completion.py\<close>) and the main window
  (\<^verbatim>\<open>qutebrowser/widgets/mainwindow.py\<close>) are embedded as functions on explicit state.
  A Python \<^verbatim>\<open>str\<close> is a \<open>string\<close> whose characters are code points below 256.
  An exception is a value of type \<open>error\<close>; a method that may raise returns
  \<open>error + 'a\<close>, with \<open>Inl\<close> for the exception.
\<close>

datatype error =
    KeyError string
  | AttributeError string
  | IndexError
  | ValueError string
  | AssertionError
  | BinasciiError
  | UnboundLocalError string
  | QtValueError
  | InvalidLiteral string
  | TypeError
  | OverflowError
  | OtherError string

text \<open>The values a raw configuration read yields: a string, or \<^verbatim>\<open>None\<close>.\<close>

datatype pyval = PyNone | PyStr string

text \<open>Python truthiness: \<^verbatim>\<open>None\<close> and the empty string are falsy.\<close>

fun truthy :: "pyval \<Rightarrow> bool" where
  "truthy PyNone = False"
| "truthy (PyStr s) = (s \<noteq> [])"

text \<open>What \<^verbatim>\<open>'{}'.format(v)\<close> prints.\<close>

fun py_format :: "pyval \<Rightarrow> string" where
  "py_format PyNone = ''None''"
| "py_format (PyStr s) = s"

fun opt_format :: "string option \<Rightarrow> string" where
  "opt_format None = ''None''"
| "opt_format (Some s) = s"

text \<open>\<^verbatim>\<open>s.endswith(c)\<close> and \<^verbatim>\<open>s.rstrip(c)\<close> for a one-character argument.\<close>

definition endswith :: "string \<Rightarrow> char \<Rightarrow> bool" where
  "endswith s c = (s \<noteq> [] \<and> last s = c)"

definition rstrip :: "string \<Rightarrow> char \<Rightarrow> string" where
  "rstrip s c = rev (dropWhile (\<lambda>x. x = c) (rev s))"

text \<open>
  \<^verbatim>\<open>int(s)\<close> on a string: surrounding whitespace is stripped, one sign is allowed, and
  decimal digits must follow, where single underscores may stand between digits;
  anything else raises \<^verbatim>\<open>ValueError\<close>, here \<open>InvalidLiteral\<close> with the string
  that was refused.
\<close>

definition py_isspace :: "char \<Rightarrow> bool" where
  "py_isspace c = (of_char c \<in> {9, 10, 11, 12, 13, 28, 29, 30, 31, 32, 133, 160 :: nat})"

definition py_isdigit :: "char \<Rightarrow> bool" where
  "py_isdigit c = (48 \<le> (of_char c :: nat) \<and> (of_char c :: nat) \<le> 57)"

definition py_strip :: "string \<Rightarrow> string" where
  "py_strip s = rev (dropWhile py_isspace (rev (dropWhile py_isspace s)))"

definition digits_value :: "string \<Rightarrow> int" where
  "digits_value ds = foldl (\<lambda>a c. 10 * a + (int (of_char c) - 48)) 0 ds"

text \<open>Digits in groups: a digit first, then digits or an underscore followed by a digit.\<close>

fun digit_groups :: "string \<Rightarrow> bool" where
  "digit_groups [] = False"
| "digit_groups [c] = py_isdigit c"
| "digit_groups (c # d # cs) =
     (py_isdigit c \<and> (if d = CHR ''_'' then digit_groups cs else digit_groups (d # cs)))"

definition parse_digits :: "string \<Rightarrow> string \<Rightarrow> error + int" where
  "parse_digits orig ds =
     (if digit_groups ds then Inr (digits_value (filter py_isdigit ds))
      else Inl (InvalidLiteral orig))"

definition py_int :: "string \<Rightarrow> error + int" where
  "py_int s =
     (case py_strip s of
        [] \<Rightarrow> parse_digits s []
      | c # cs \<Rightarrow>
          if c = CHR ''-'' then map_sum id uminus (parse_digits s cs)
          else if c = CHR ''+'' then parse_digits s cs
          else parse_digits s (c # cs))"

text \<open>
  Python numbers as the window arithmetic meets them: an \<^verbatim>\<open>int\<close>, which has no bound,
  or the \<^verbatim>\<open>float\<close> that true division yields, carried as the exact quotient.
\<close>

datatype pynum = PyInt int | PyFloat rat

definition py_truediv :: "int \<Rightarrow> int \<Rightarrow> pynum" where
  "py_truediv a b = PyFloat (of_int a / of_int b)"

fun py_sub :: "int \<Rightarrow> pynum \<Rightarrow> pynum" where
  "py_sub a (PyInt b) = PyInt (a - b)"
| "py_sub a (PyFloat q) = PyFloat (of_int a - q)"

text \<open>
  The toolkit's integers are 32-bit C ints. An integer argument of a toolkit
  constructor must be a Python \<^verbatim>\<open>int\<close> in that range: a \<^verbatim>\<open>float\<close> is refused with
  \<^verbatim>\<open>TypeError\<close>, an \<^verbatim>\<open>int\<close> out of range with \<^verbatim>\<open>OverflowError\<close>. What a toolkit
  method returns is read back as the signed value of the 32 bits.
\<close>

type_synonym c_int = "32 word"

definition c_int_range :: "int \<Rightarrow> bool" where
  "c_int_range n = (- (2 ^ 31) \<le> n \<and> n < 2 ^ 31)"

definition as_c_int :: "pynum \<Rightarrow> error + c_int" where
  "as_c_int a =
     (case a of
        PyFloat q \<Rightarrow> Inl TypeError
      | PyInt n \<Rightarrow> if c_int_range n then Inr (word_of_int n) else Inl OverflowError)"


section \<open>The main window\<close>

subsection \<open>Toolkit geometry\<close>

text \<open>
  A \<^verbatim>\<open>QRect\<close> stores its left, top, right and bottom coordinates, both corners
  included: \<^verbatim>\<open>QRect(x, y, w, h)\<close> ends at \<open>x + w - 1\<close> and \<open>y + h - 1\<close>, and
  \<^verbatim>\<open>QRect(topLeft, bottomRight)\<close> stores the two points as they are. The toolkit
  computes with C ints, so its sums and differences wrap around at 32 bits.
\<close>

record QPoint =
  ptx :: c_int
  pty :: c_int

record QRect =
  rx1 :: c_int
  ry1 :: c_int
  rx2 :: c_int
  ry2 :: c_int

text \<open>\<^verbatim>\<open>QPoint(a, b)\<close> called from Python: both arguments are converted, the first one first.\<close>

definition mkQPoint :: "pynum \<Rightarrow> pynum \<Rightarrow> error + QPoint" where
  "mkQPoint a b =
     (case as_c_int a of
        Inl e \<Rightarrow> Inl e
      | Inr x \<Rightarrow> (case as_c_int b of Inl e \<Rightarrow> Inl e | Inr y \<Rightarrow> Inr \<lparr>ptx = x, pty = y\<rparr>))"

definition QPoint_minus :: "QPoint \<Rightarrow> QPoint \<Rightarrow> QPoint" where
  "QPoint_minus p q = \<lparr>ptx = ptx p - ptx q, pty = pty p - pty q\<rparr>"

definition QRect_xywh :: "c_int \<Rightarrow> c_int \<Rightarrow> c_int \<Rightarrow> c_int \<Rightarrow> QRect" where
  "QRect_xywh x y w h = \<lparr>rx1 = x, ry1 = y, rx2 = x + w - 1, ry2 = y + h - 1\<rparr>"

definition QRect_corners :: "QPoint \<Rightarrow> QPoint \<Rightarrow> QRect" where
  "QRect_corners p q = \<lparr>rx1 = ptx p, ry1 = pty p, rx2 = ptx q, ry2 = pty q\<rparr>"

definition topRight :: "QRect \<Rightarrow> QPoint" where
  "topRight r = \<lparr>ptx = rx2 r, pty = ry1 r\<rparr>"

definition rect_height :: "QRect \<Rightarrow> c_int" where
  "rect_height r = ry2 r - ry1 r + 1"

subsection \<open>Widgets\<close>

text \<open>
  A widget is its geometry; the inspector also has what \<^verbatim>\<open>isVisible()\<close> returns, the
  status bar the error messages \<^verbatim>\<open>disp_error\<close> has shown. \<^verbatim>\<open>height()\<close> of a widget
  is the height of its geometry, handed to Python as an \<^verbatim>\<open>int\<close>.
\<close>

record StatusBar =
  status_geometry :: QRect
  status_errors :: "string list"

record QWebInspector =
  inspector_visible :: bool
  inspector_geometry :: QRect

record CompletionView =
  completion_geometry :: QRect

record MainWindow =
  geometry :: QRect
  status :: StatusBar
  inspector :: QWebInspector
  completion :: CompletionView

definition height :: "MainWindow \<Rightarrow> int" where
  "height w = sint (rect_height (geometry w))"

definition status_height :: "StatusBar \<Rightarrow> int" where
  "status_height s = sint (rect_height (status_geometry s))"

definition inspector_height :: "QWebInspector \<Rightarrow> int" where
  "inspector_height i = sint (rect_height (inspector_geometry i))"

definition setGeometry :: "QRect \<Rightarrow> CompletionView \<Rightarrow> CompletionView" where
  "setGeometry r c = c\<lparr>completion_geometry := r\<rparr>"


text \<open>
  The two configuration reads of the window: \<^verbatim>\<open>str(config.get('completion', 'height'))\<close>
  and the truth value of \<^verbatim>\<open>config.get('webkit', 'developer-extras-enabled')\<close>. The
  configuration module is not part of these sources, so what it returns is a parameter.
\<close>

record window_config =
  completion_height :: string
  developer_extras_enabled :: bool

text \<open>
  A method of the window changes the window and may raise: its outcome is the window
  it leaves, with the exception when it raised.
\<close>

datatype outcome = Return MainWindow | Raise error MainWindow



subsection \<open>\<^verbatim>\<open>MainWindow.resize_completion\<close>\<close>

definition configured_height :: "string \<Rightarrow> MainWindow \<Rightarrow> error + pynum" where
  "configured_height confheight w =
     (if endswith confheight CHR ''%'' then
        (case py_int (rstrip confheight CHR ''%'') of
           Inl e \<Rightarrow> Inl e
         | Inr perc \<Rightarrow> Inr (py_truediv (height w * perc) 100))
      else
        (case py_int confheight of
           Inl e \<Rightarrow> Inl e
         | Inr n \<Rightarrow> Inr (PyInt n)))"

text \<open>
  The two corners, before the rectangle is set. \<^verbatim>\<open>QPoint(0, self.inspector.height())\<close>
  is built from a height the toolkit has just returned, so it is never refused.
\<close>

definition completion_corners :: "pynum \<Rightarrow> MainWindow \<Rightarrow> error + QPoint \<times> QPoint" where
  "completion_corners h w =
     (case mkQPoint (PyInt 0) (py_sub (height w - status_height (status w)) h) of
        Inl e \<Rightarrow> Inl e
      | Inr topleft \<Rightarrow>
          (let bottomright = topRight (status_geometry (status w))
           in if inspector_visible (inspector w) then
                (case mkQPoint (PyInt 0) (PyInt (inspector_height (inspector w))) of
                   Inl e \<Rightarrow> Inl e
                 | Inr shift \<Rightarrow>
                     Inr (QPoint_minus topleft shift, QPoint_minus bottomright shift))
              else Inr (topleft, bottomright)))"

definition resize_completion :: "window_config \<Rightarrow> MainWindow \<Rightarrow> outcome" where
  "resize_completion cfg w =
     (case configured_height (completion_height cfg) w of
        Inl e \<Rightarrow> Raise e w
      | Inr h \<Rightarrow>
          (case completion_corners h w of
             Inl e \<Rightarrow> Raise e w
           | Inr (topleft, bottomright) \<Rightarrow>
               Return (w\<lparr>completion :=
                 setGeometry (QRect_corners topleft bottomright) (completion w)\<rparr>)))"



subsection \<open>\<^verbatim>\<open>MainWindow.toggle_inspector\<close>\<close>



text \<open>
  In the constructor the inspector is hidden before it is put into the layout: only
  the widget itself is concerned.
\<close>

definition hide :: "QWebInspector \<Rightarrow> QWebInspector" where
  "hide i = i\<lparr>inspector_visible := False\<rparr>"

subsection \<open>\<^verbatim>\<open>MainWindow.__init__\<close>\<close>

text \<open>
  The saved state is a two-level dictionary; a missing section or key raises
  \<^verbatim>\<open>KeyError\<close>. \<^verbatim>\<open>b64decode(..., validate=True)\<close> and the toolkit's
  \<^verbatim>\<open>restoreGeometry\<close> are parameters, and so are the fresh child widgets the
  constructors of the other modules return. Only \<^verbatim>\<open>KeyError\<close> and
  \<^verbatim>\<open>binascii.Error\<close> are caught around the decoding. Where \<^verbatim>\<open>restoreGeometry\<close>
  raises \<^verbatim>\<open>KeyError\<close>, the handler sets the default geometry and the test of
  \<^verbatim>\<open>ok\<close> that follows finds the name unbound.
\<close>

definition stateconf_lookup ::
  "(string \<rightharpoonup> (string \<rightharpoonup> string)) \<Rightarrow> string \<Rightarrow> string \<Rightarrow> error + string" where
  "stateconf_lookup stateconf sect key =
     (case stateconf sect of
        None \<Rightarrow> Inl (KeyError sect)
      | Some d \<Rightarrow> (case d key of None \<Rightarrow> Inl (KeyError key) | Some v \<Rightarrow> Inr v))"

definition default_geometry :: QRect where
  "default_geometry = QRect_xywh 50 50 800 600"

definition initial_geometry ::
  "(string \<Rightarrow> error + 'b) \<Rightarrow> ('b \<Rightarrow> QRect \<Rightarrow> error + bool \<times> QRect) \<Rightarrow>
   (string \<rightharpoonup> (string \<rightharpoonup> string)) \<Rightarrow> QRect \<Rightarrow> error + QRect" where
  "initial_geometry b64decode restoreGeometry stateconf geom0 =
     (case (case stateconf_lookup stateconf ''geometry'' ''mainwindow'' of
              Inl e \<Rightarrow> Inl e
            | Inr s \<Rightarrow> b64decode s) of
        Inl (KeyError k) \<Rightarrow> Inr default_geometry
      | Inl BinasciiError \<Rightarrow> Inr default_geometry
      | Inl e \<Rightarrow> Inl e
      | Inr geom \<Rightarrow>
          (case restoreGeometry geom geom0 of
             Inl (KeyError k) \<Rightarrow> Inl (UnboundLocalError ''ok'')
           | Inl e \<Rightarrow> Inl e
           | Inr (ok, g) \<Rightarrow> if \<not> ok then Inr default_geometry else Inr g))"

definition MainWindow_init ::
  "(string \<Rightarrow> error + 'b) \<Rightarrow> ('b \<Rightarrow> QRect \<Rightarrow> error + bool \<times> QRect) \<Rightarrow>
   (string \<rightharpoonup> (string \<rightharpoonup> string)) \<Rightarrow> QRect \<Rightarrow>
   StatusBar \<Rightarrow> QWebInspector \<Rightarrow> CompletionView \<Rightarrow> error + MainWindow" where
  "MainWindow_init b64decode restoreGeometry stateconf geom0 status0 inspector0 completion0 =
     (case initial_geometry b64decode restoreGeometry stateconf geom0 of
        Inl e \<Rightarrow> Inl e
      | Inr g \<Rightarrow>
          Inr \<lparr>geometry = g, status = status0, inspector = hide inspector0,
               completion = completion0\<rparr>)"


section \<open>The completion models\<close>

subsection \<open>The base model\<close>

text \<open>
  Modelled from the spec: \<^verbatim>\<open>basecompletion.BaseCompletionModel\<close>, whose module is not
  among the sources. The spec has a completion model as ``a list feeding an autocomplete
  popup'' whose entries are ``display rows (name, description, value)''. The model is a
  list of categories, each with its rows in the order they were added; an item is
  addressed by category, row and column (0 the name, 1 the description, 2 the value
  column, called misc in the code).
\<close>

record row =
  row_name :: pyval
  row_desc :: pyval
  row_misc :: pyval

record category =
  cat_name :: string
  cat_sort :: "int option"
  cat_rows :: "row list"

type_synonym BaseCompletionModel = "category list"

type_synonym item = "nat \<times> nat \<times> nat"

definition new_category ::
  "string \<Rightarrow> int option \<Rightarrow> BaseCompletionModel \<Rightarrow> nat \<times> BaseCompletionModel" where
  "new_category name srt m =
     (length m, m @ [\<lparr>cat_name = name, cat_sort = srt, cat_rows = []\<rparr>])"

text \<open>
  \<^verbatim>\<open>new_item(cat, name, desc, misc)\<close> appends one row and returns its three items.
  A category handle always comes from \<open>new_category\<close>; for any other number the
  model is left as it is.
\<close>

definition new_item ::
  "nat \<Rightarrow> pyval \<Rightarrow> pyval \<Rightarrow> pyval \<Rightarrow> BaseCompletionModel
   \<Rightarrow> (item \<times> item \<times> item) \<times> BaseCompletionModel" where
  "new_item cat name desc misc m =
     (if cat < length m then
        (let r = length (cat_rows (m ! cat));
             new_row = \<lparr>row_name = name, row_desc = desc, row_misc = misc\<rparr>
         in (((cat, r, 0), (cat, r, 1), (cat, r, 2)),
             m[cat := (m ! cat)\<lparr>cat_rows := cat_rows (m ! cat) @ [new_row]\<rparr>]))
      else (((cat, 0, 0), (cat, 0, 1), (cat, 0, 2)), m))"

text \<open>The loop \<^verbatim>\<open>for (name, desc) in xs: self.new_item(cat, name, desc)\<close>.\<close>

fun new_items ::
  "nat \<Rightarrow> (string \<times> string) list \<Rightarrow> BaseCompletionModel \<Rightarrow> BaseCompletionModel" where
  "new_items cat [] m = m"
| "new_items cat ((name, desc) # xs) m =
     new_items cat xs (snd (new_item cat (PyStr name) (PyStr desc) PyNone m))"

text \<open>What an item displays; \<open>None\<close> where the model has no such item.\<close>

definition column :: "nat \<Rightarrow> row \<Rightarrow> pyval" where
  "column k r = (if k = 0 then row_name r else if k = 1 then row_desc r else row_misc r)"

definition item_data :: "BaseCompletionModel \<Rightarrow> item \<Rightarrow> pyval option" where
  "item_data m it =
     (case it of (c, r, k) \<Rightarrow>
        if c < length m \<and> r < length (cat_rows (m ! c)) \<and> k < 3
        then Some (column k (cat_rows (m ! c) ! r)) else None)"

text \<open>
  \<^verbatim>\<open>item.index()\<close>: the toolkit's model index of an item, \<open>None\<close> being the invalid
  index of an item that is in no model.
\<close>

definition index_of :: "BaseCompletionModel \<Rightarrow> item \<Rightarrow> item option" where
  "index_of m it = (if item_data m it = None then None else Some it)"

text \<open>
  The toolkit's own \<^verbatim>\<open>setData\<close> for the display role: it fails on an invalid index and
  otherwise stores the value in the item.
\<close>

definition set_column :: "nat \<Rightarrow> pyval \<Rightarrow> row \<Rightarrow> row" where
  "set_column k v r =
     (if k = 0 then r\<lparr>row_name := v\<rparr>
      else if k = 1 then r\<lparr>row_desc := v\<rparr> else r\<lparr>row_misc := v\<rparr>)"

definition standard_setData ::
  "BaseCompletionModel \<Rightarrow> item option \<Rightarrow> pyval \<Rightarrow> bool \<times> BaseCompletionModel" where
  "standard_setData m idx v =
     (case idx of
        None \<Rightarrow> (False, m)
      | Some (c, r, k) \<Rightarrow>
          if item_data m (c, r, k) = None then (False, m)
          else (True, m[c := (m ! c)\<lparr>cat_rows :=
                  (cat_rows (m ! c))[r := set_column k v (cat_rows (m ! c) ! r)]\<rparr>]))"

subsection \<open>What the models read from other modules\<close>

text \<open>
  The configuration, \<^verbatim>\<open>qtutils\<close> and the model's inherited \<^verbatim>\<open>setData\<close> are not among
  the sources; they are parameters: \<open>config_get section option\<close> is
  \<^verbatim>\<open>config.get(section, option, raw=True)\<close>, \<open>ensure_valid\<close> is
  \<^verbatim>\<open>qtutils.ensure_valid\<close>, and \<open>setData m idx v\<close> is
  \<^verbatim>\<open>self.setData(idx, v, Qt.DisplayRole)\<close>, returning its result and the model after it.
\<close>

record env =
  config_get :: "string \<Rightarrow> string option \<Rightarrow> error + pyval"
  ensure_valid :: "item option \<Rightarrow> error + unit"
  setData :: "BaseCompletionModel \<Rightarrow> item option \<Rightarrow> pyval \<Rightarrow> bool \<times> BaseCompletionModel"

text \<open>
  One section of \<^verbatim>\<open>configdata.DATA\<close>: its option names in order, its
  \<^verbatim>\<open>descriptions\<close> dictionary (\<open>None\<close> when the section object has no such
  attribute), the result of \<^verbatim>\<open>valtype.complete()\<close> (\<open>None\<close> when the section has no
  \<^verbatim>\<open>valtype\<close> attribute), and for each option the result of \<^verbatim>\<open>typ.complete()\<close>.
  A \<^verbatim>\<open>complete()\<close> returns \<^verbatim>\<open>None\<close> or a list of (value, description) pairs.
\<close>

type_synonym completions = "(string \<times> string) list option"

record sectdata =
  sect_keys :: "string list"
  descriptions :: "(string \<rightharpoonup> string) option"
  valtype :: "completions option"
  option_typ :: "string \<rightharpoonup> completions"

type_synonym configdata = "(string \<times> sectdata) list"

text \<open>\<^verbatim>\<open>str.splitlines()\<close>: a line ends at a line boundary, \<^verbatim>\<open>\r\n\<close> counting once.\<close>

definition is_linebreak :: "char \<Rightarrow> bool" where
  "is_linebreak c = (of_char c \<in> {10, 11, 12, 13, 28, 29, 30, 133 :: nat})"

fun splitlines_from :: "string \<Rightarrow> string \<Rightarrow> string list" where
  "splitlines_from acc [] = (if acc = [] then [] else [rev acc])"
| "splitlines_from acc (c # cs) =
     (if is_linebreak c then
        rev acc # splitlines_from []
          (if c = CHR 0x0D \<and> cs \<noteq> [] \<and> hd cs = CHR 0x0A then tl cs else cs)
      else splitlines_from (c # acc) cs)"

definition splitlines :: "string \<Rightarrow> string list" where
  "splitlines s = splitlines_from [] s"

text \<open>
  The description of an option, as both \<^verbatim>\<open>SettingOptionCompletionModel.__init__\<close> and
  \<^verbatim>\<open>HelpCompletionModel._init_settings\<close> compute it: the empty string when the lookup
  raises \<^verbatim>\<open>KeyError\<close> or \<^verbatim>\<open>AttributeError\<close>, else the first line
  (\<^verbatim>\<open>splitlines()[0]\<close>, which raises \<^verbatim>\<open>IndexError\<close> on an empty description).
\<close>

definition lookup_description :: "sectdata \<Rightarrow> string \<Rightarrow> error + string" where
  "lookup_description sd name =
     (case descriptions sd of
        None \<Rightarrow> Inl (AttributeError ''descriptions'')
      | Some d \<Rightarrow> (case d name of None \<Rightarrow> Inl (KeyError name) | Some desc \<Rightarrow> Inr desc))"

definition option_desc :: "sectdata \<Rightarrow> string \<Rightarrow> error + string" where
  "option_desc sd name =
     (case lookup_description sd name of
        Inl (KeyError k) \<Rightarrow> Inr ''''
      | Inl (AttributeError a) \<Rightarrow> Inr ''''
      | Inl e \<Rightarrow> Inl e
      | Inr desc \<Rightarrow> (case splitlines desc of [] \<Rightarrow> Inl IndexError | l # ls \<Rightarrow> Inr l))"

subsection \<open>\<^verbatim>\<open>SettingOptionCompletionModel\<close>\<close>

text \<open>
  The model and its \<^verbatim>\<open>_misc_items\<close> dictionary, from option name to the item of the
  value column. (\<^verbatim>\<open>config.on_change\<close> registers the update method with the
  configuration; it does not touch the model.)
\<close>

record SettingOptionCompletionModel =
  option_model :: BaseCompletionModel
  misc_items :: "string \<rightharpoonup> item"

fun fill_options ::
  "env \<Rightarrow> string \<Rightarrow> sectdata \<Rightarrow> nat \<Rightarrow> string list \<Rightarrow> SettingOptionCompletionModel
   \<Rightarrow> error + SettingOptionCompletionModel" where
  "fill_options E section sd cat [] s = Inr s"
| "fill_options E section sd cat (name # names) s =
     (case option_desc sd name of
        Inl e \<Rightarrow> Inl e
      | Inr desc \<Rightarrow>
          (case config_get E section (Some name) of
             Inl e \<Rightarrow> Inl e
           | Inr v \<Rightarrow>
               (case new_item cat (PyStr name) (PyStr desc) v (option_model s) of
                  ((valitem, descitem, miscitem), m') \<Rightarrow>
                    fill_options E section sd cat names
                      (s\<lparr>option_model := m', misc_items := (misc_items s)(name \<mapsto> miscitem)\<rparr>))))"

definition SettingOptionCompletionModel_init ::
  "env \<Rightarrow> configdata \<Rightarrow> string \<Rightarrow> error + SettingOptionCompletionModel" where
  "SettingOptionCompletionModel_init E DATA section =
     (case new_category section None [] of
        (cat, m) \<Rightarrow>
          (case map_of DATA section of
             None \<Rightarrow> Inl (KeyError section)
           | Some sd \<Rightarrow>
               fill_options E section sd cat (sect_keys sd)
                 \<lparr>option_model = m, misc_items = Map.empty\<rparr>))"

definition setting_failed :: "string \<Rightarrow> string \<Rightarrow> string \<Rightarrow> string" where
  "setting_failed section option val =
     ''Setting data failed! (section: '' @ section @ '', option: '' @ option
       @ '', value: '' @ val @ '')''"

definition couldnt_get :: "string \<Rightarrow> string \<Rightarrow> string" where
  "couldnt_get section option =
     ''Couldn't get item '' @ section @ ''.'' @ option @ '' from model!''"

text \<open>
  \<^verbatim>\<open>update_misc_column\<close>. The debug log of \<^verbatim>\<open>log.completion\<close> is passed along with
  the model.
\<close>

definition update_misc_column ::
  "env \<Rightarrow> string \<Rightarrow> string \<Rightarrow> SettingOptionCompletionModel \<times> string list
   \<Rightarrow> error + SettingOptionCompletionModel \<times> string list" where
  "update_misc_column E section option st =
     (case st of (s, msgs) \<Rightarrow>
        (case misc_items s option of
           None \<Rightarrow> Inr (s, msgs @ [couldnt_get section option])
         | Some it \<Rightarrow>
             (case config_get E section (Some option) of
                Inl e \<Rightarrow> Inl e
              | Inr val \<Rightarrow>
                  (let idx = index_of (option_model s) it in
                   case ensure_valid E idx of
                     Inl e \<Rightarrow> Inl e
                   | Inr u \<Rightarrow>
                       (case setData E (option_model s) idx val of
                          (ok, m') \<Rightarrow>
                            if \<not> ok then
                              Inl (ValueError (setting_failed section option (py_format val)))
                            else Inr (s\<lparr>option_model := m'\<rparr>, msgs))))))"

subsection \<open>\<^verbatim>\<open>SettingValueCompletionModel\<close>\<close>

text \<open>The two-character string \<^verbatim>\<open>""\<close> shown for a falsy value.\<close>

definition two_quotes :: string where
  "two_quotes = [CHR 0x22, CHR 0x22]"

definition shown_value :: "pyval \<Rightarrow> pyval" where
  "shown_value v = (if \<not> truthy v then PyStr two_quotes else v)"

record SettingValueCompletionModel =
  value_model :: BaseCompletionModel
  cur_item :: item

definition none_option_message :: "string \<Rightarrow> string" where
  "none_option_message section =
     ''option may only be None for ValueList sections, but '' @ section @ '' is not!''"

text \<open>
  The values to complete: from the section's \<^verbatim>\<open>valtype\<close> where it has one, else from
  the type of the option, which must then be given.
\<close>

definition allowed_values :: "string \<Rightarrow> string option \<Rightarrow> sectdata \<Rightarrow> error + completions" where
  "allowed_values section option sd =
     (case valtype sd of
        Some vals \<Rightarrow> Inr vals
      | None \<Rightarrow>
          (case option of
             None \<Rightarrow> Inl (ValueError (none_option_message section))
           | Some opt \<Rightarrow>
               (case option_typ sd opt of
                  None \<Rightarrow> Inl (KeyError opt)
                | Some vals \<Rightarrow> Inr vals)))"

definition SettingValueCompletionModel_init ::
  "env \<Rightarrow> configdata \<Rightarrow> string \<Rightarrow> string option \<Rightarrow> error + SettingValueCompletionModel" where
  "SettingValueCompletionModel_init E DATA section option =
     (case new_category ''Current'' (Some 0) [] of
        (cur_cat, m1) \<Rightarrow>
          (case config_get E section option of
             Inl e \<Rightarrow> Inl e
           | Inr v \<Rightarrow>
               (case new_item cur_cat (shown_value v) (PyStr ''Current value'') PyNone m1 of
                  ((cur, descitem, miscitem), m2) \<Rightarrow>
                    (case map_of DATA section of
                       None \<Rightarrow> Inl (KeyError section)
                     | Some sd \<Rightarrow>
                         (case allowed_values section option sd of
                            Inl e \<Rightarrow> Inl e
                          | Inr None \<Rightarrow> Inr \<lparr>value_model = m2, cur_item = cur\<rparr>
                          | Inr (Some vals) \<Rightarrow>
                              (case new_category ''Allowed'' (Some 1) m2 of
                                 (cat, m3) \<Rightarrow>
                                   Inr \<lparr>value_model = new_items cat vals m3,
                                        cur_item = cur\<rparr>))))))"

definition update_current_value ::
  "env \<Rightarrow> string \<Rightarrow> string option \<Rightarrow> SettingValueCompletionModel
   \<Rightarrow> error + SettingValueCompletionModel" where
  "update_current_value E section option s =
     (case config_get E section option of
        Inl e \<Rightarrow> Inl e
      | Inr v \<Rightarrow>
          (let val = shown_value v;
               idx = index_of (value_model s) (cur_item s)
           in case ensure_valid E idx of
                Inl e \<Rightarrow> Inl e
              | Inr u \<Rightarrow>
                  (case setData E (value_model s) idx val of
                     (ok, m') \<Rightarrow>
                       if \<not> ok then
                         Inl (ValueError
                               (setting_failed section (opt_format option) (py_format val)))
                       else Inr (s\<lparr>value_model := m'\<rparr>))))"

subsection \<open>\<^verbatim>\<open>CommandCompletionModel\<close> and \<^verbatim>\<open>HelpCompletionModel\<close>\<close>

text \<open>
  A registered command, with the attributes the models read. \<^verbatim>\<open>cmd_dict\<close> maps each
  name to its command, so one command may be the value of several names;
  \<^verbatim>\<open>set(cmd_dict.values())\<close> holds each once. The order in which the set is iterated
  is not fixed by the language: \<open>iter\<close> stands for it.
\<close>

record command =
  cmd_name :: string
  cmd_desc :: string
  cmd_hide :: bool
  cmd_debug :: bool

definition listed :: "bool \<Rightarrow> command \<Rightarrow> bool" where
  "listed debug_mode obj = (\<not> (cmd_hide obj \<or> (cmd_debug obj \<and> \<not> debug_mode)))"

definition command_entries ::
  "(command \<Rightarrow> string \<times> string) \<Rightarrow> bool \<Rightarrow> command list \<Rightarrow> (string \<times> string) list" where
  "command_entries entry debug_mode objs = map entry (filter (listed debug_mode) objs)"

definition alias_entry :: "string \<times> string \<Rightarrow> string \<times> string" where
  "alias_entry a = (case a of (name, cmd) \<Rightarrow> (name, ''Alias for '' @ [CHR 0x27] @ cmd @ [CHR 0x27]))"

definition CommandCompletionModel_init ::
  "(command list \<Rightarrow> command list) \<Rightarrow> bool \<Rightarrow> (string \<times> string) list
   \<Rightarrow> (string \<times> command) list \<Rightarrow> error + BaseCompletionModel" where
  "CommandCompletionModel_init iter debug_mode aliases cmd_dict =
     (if cmd_dict = [] then Inl AssertionError
      else
        (let cmdlist = command_entries (\<lambda>obj. (cmd_name obj, cmd_desc obj)) debug_mode
                         (iter (map snd cmd_dict))
                       @ map alias_entry aliases
         in case new_category ''Commands'' None [] of
              (cat, m) \<Rightarrow> Inr (new_items cat (sort cmdlist) m)))"

definition init_commands ::
  "(command list \<Rightarrow> command list) \<Rightarrow> bool \<Rightarrow> (string \<times> command) list
   \<Rightarrow> BaseCompletionModel \<Rightarrow> error + BaseCompletionModel" where
  "init_commands iter debug_mode cmd_dict m0 =
     (if cmd_dict = [] then Inl AssertionError
      else
        (let cmdlist = command_entries (\<lambda>obj. (CHR '':'' # cmd_name obj, cmd_desc obj))
                         debug_mode (iter (map snd cmd_dict))
         in case new_category ''Commands'' None m0 of
              (cat, m) \<Rightarrow> Inr (new_items cat (sort cmdlist) m)))"

fun settings_options ::
  "string \<Rightarrow> sectdata \<Rightarrow> nat \<Rightarrow> string list \<Rightarrow> BaseCompletionModel
   \<Rightarrow> error + BaseCompletionModel" where
  "settings_options sectname sd cat [] m = Inr m"
| "settings_options sectname sd cat (optname # optnames) m =
     (case option_desc sd optname of
        Inl e \<Rightarrow> Inl e
      | Inr desc \<Rightarrow>
          settings_options sectname sd cat optnames
            (snd (new_item cat (PyStr (sectname @ ''->'' @ optname)) (PyStr desc) PyNone m)))"

fun settings_sections ::
  "nat \<Rightarrow> configdata \<Rightarrow> BaseCompletionModel \<Rightarrow> error + BaseCompletionModel" where
  "settings_sections cat [] m = Inr m"
| "settings_sections cat ((sectname, sd) # rest) m =
     (case settings_options sectname sd cat (sect_keys sd) m of
        Inl e \<Rightarrow> Inl e
      | Inr m' \<Rightarrow> settings_sections cat rest m')"

definition init_settings :: "configdata \<Rightarrow> BaseCompletionModel \<Rightarrow> error + BaseCompletionModel" where
  "init_settings DATA m0 =
     (case new_category ''Settings'' None m0 of
        (cat, m) \<Rightarrow> settings_sections cat DATA m)"

definition HelpCompletionModel_init ::
  "(command list \<Rightarrow> command list) \<Rightarrow> bool \<Rightarrow> (string \<times> command) list \<Rightarrow> configdata
   \<Rightarrow> error + BaseCompletionModel" where
  "HelpCompletionModel_init iter debug_mode cmd_dict DATA =
     (case init_commands iter debug_mode cmd_dict [] of
        Inl e \<Rightarrow> Inl e
      | Inr m \<Rightarrow> init_settings DATA m)"

subsection \<open>\<^verbatim>\<open>QuickmarkCompletionModel\<close>\<close>

text \<open>
  \<^verbatim>\<open>marks\<close> is the quickmark manager's dictionary from quickmark name to URL, given
  by its items in order.
\<close>

definition on_quickmarks_changed ::
  "(string \<times> string) list \<Rightarrow> BaseCompletionModel \<Rightarrow> BaseCompletionModel" where
  "on_quickmarks_changed marks m0 =
     (let qmlist = map (\<lambda>(qm_name, qm_url). (qm_url, qm_name)) marks
      in case new_category ''Quickmarks'' None m0 of
           (cat, m) \<Rightarrow> new_items cat qmlist m)"

definition QuickmarkCompletionModel_init :: "(string \<times> string) list \<Rightarrow> BaseCompletionModel" where
  "QuickmarkCompletionModel_init marks = on_quickmarks_changed marks []"


section \<open>What the specification says, and sample states\<close>

subsection \<open>The completion popup above the status bar\<close>


definition example_window :: MainWindow where
  "example_window =
     \<lparr>geometry = QRect_xywh 50 50 800 601,
      status = \<lparr>status_geometry = QRect_xywh 0 577 800 24, status_errors = []\<rparr>,
      inspector = \<lparr>inspector_visible = True, inspector_geometry = QRect_xywh 0 377 800 200\<rparr>,
      completion = \<lparr>completion_geometry = QRect_xywh 0 0 100 30\<rparr>\<rparr>"







subsection \<open>Display rows\<close>

text \<open>The display row of a (name, description) pair: no value in the third column.\<close>

definition entry_row :: "string \<times> string \<Rightarrow> row" where
  "entry_row e = \<lparr>row_name = PyStr (fst e), row_desc = PyStr (snd e), row_misc = PyNone\<rparr>"

text \<open>An option has no description entry: the lookup raises one of the two errors.\<close>

definition no_description :: "sectdata \<Rightarrow> string \<Rightarrow> bool" where
  "no_description sd name =
     (case descriptions sd of None \<Rightarrow> True | Some d \<Rightarrow> d name = None)"

text \<open>An option whose description entry is the empty string: it has no first line.\<close>

definition empty_description :: "sectdata \<Rightarrow> string \<Rightarrow> bool" where
  "empty_description sd name =
     (case descriptions sd of None \<Rightarrow> False | Some d \<Rightarrow> d name = Some [])"

text \<open>
  What \<^verbatim>\<open>setData\<close> is for: when it reports success, the index was valid and the item
  now displays the value.
\<close>

definition stores_value ::
  "(BaseCompletionModel \<Rightarrow> item option \<Rightarrow> pyval \<Rightarrow> bool \<times> BaseCompletionModel) \<Rightarrow> bool" where
  "stores_value sd =
     (\<forall>m idx v m'. sd m idx v = (True, m') \<longrightarrow>
        (\<exists>it. idx = Some it \<and> item_data m' it = Some v))"

text \<open>What the current item of a \<open>SettingValueCompletionModel\<close> displays.\<close>

definition current_display :: "SettingValueCompletionModel \<Rightarrow> pyval option" where
  "current_display t = item_data (value_model t) (cur_item t)"

subsection \<open>Sample configuration and models\<close>

definition example_env :: env where
  "example_env =
     \<lparr>config_get = (\<lambda>section option.
        Inr (if option = Some ''editor'' then PyStr ''vim'' else PyStr [])),
      ensure_valid = (\<lambda>idx. case idx of None \<Rightarrow> Inl QtValueError | Some it \<Rightarrow> Inr ()),
      setData = standard_setData\<rparr>"

definition refusing_env :: env where
  "refusing_env = example_env\<lparr>setData := (\<lambda>m idx v. (False, m))\<rparr>"

definition general_section :: sectdata where
  "general_section =
     \<lparr>sect_keys = [''editor'', ''private''],
      descriptions = Some [''editor'' \<mapsto> ''Editor to use.'' @ [CHR 0x0A] @ ''More.''],
      valtype = None,
      option_typ = [''editor'' \<mapsto> None,
                    ''private'' \<mapsto> Some [(''true'', ''On''), (''false'', ''Off'')]]\<rparr>"

definition searchengines_section :: sectdata where
  "searchengines_section =
     \<lparr>sect_keys = [''DEFAULT''],
      descriptions = None,
      valtype = Some (Some [(''{}'', ''Search term'')]),
      option_typ = Map.empty\<rparr>"

definition example_data :: configdata where
  "example_data = [(''general'', general_section), (''searchengines'', searchengines_section)]"

definition general_rows :: "row list" where
  "general_rows =
     [\<lparr>row_name = PyStr ''editor'', row_desc = PyStr ''Editor to use.'',
       row_misc = PyStr ''vim''\<rparr>,
      \<lparr>row_name = PyStr ''private'', row_desc = PyStr [], row_misc = PyStr []\<rparr>]"

definition general_options :: SettingOptionCompletionModel where
  "general_options =
     \<lparr>option_model = [\<lparr>cat_name = ''general'', cat_sort = None, cat_rows = general_rows\<rparr>],
      misc_items = [''editor'' \<mapsto> (0, 0, 2), ''private'' \<mapsto> (0, 1, 2)]\<rparr>"

definition private_values :: SettingValueCompletionModel where
  "private_values =
     \<lparr>value_model =
        [\<lparr>cat_name = ''Current'', cat_sort = Some 0,
          cat_rows = [\<lparr>row_name = PyStr two_quotes, row_desc = PyStr ''Current value'',
                       row_misc = PyNone\<rparr>]\<rparr>,
         \<lparr>cat_name = ''Allowed'', cat_sort = Some 1,
          cat_rows = [entry_row (''true'', ''On''), entry_row (''false'', ''Off'')]\<rparr>],
      cur_item = (0, 0, 0)\<rparr>"

definition stale_values :: SettingValueCompletionModel where
  "stale_values =
     \<lparr>value_model =
        [\<lparr>cat_name = ''Current'', cat_sort = Some 0,
          cat_rows = [\<lparr>row_name = PyStr ''emacs'', row_desc = PyStr ''Current value'',
                       row_misc = PyNone\<rparr>]\<rparr>],
      cur_item = (0, 0, 0)\<rparr>"

definition stale_options :: SettingOptionCompletionModel where
  "stale_options =
     \<lparr>option_model =
        [\<lparr>cat_name = ''general'', cat_sort = None,
          cat_rows =
            [\<lparr>row_name = PyStr ''editor'', row_desc = PyStr ''Editor to use.'',
              row_misc = PyStr ''nano''\<rparr>,
             \<lparr>row_name = PyStr ''private'', row_desc = PyStr [], row_misc = PyStr []\<rparr>]\<rparr>],
      misc_items = [''editor'' \<mapsto> (0, 0, 2), ''private'' \<mapsto> (0, 1, 2)]\<rparr>"

definition fresh_values :: SettingValueCompletionModel where
  "fresh_values =
     \<lparr>value_model =
        [\<lparr>cat_name = ''Current'', cat_sort = Some 0,
          cat_rows = [\<lparr>row_name = PyStr ''vim'', row_desc = PyStr ''Current value'',
                       row_misc = PyNone\<rparr>]\<rparr>],
      cur_item = (0, 0, 0)\<rparr>"

text \<open>
  The description a row shows for an option once the model is built: the first line
  of its entry, or the empty string.
\<close>

definition shown_description :: "sectdata \<Rightarrow> string \<Rightarrow> string" where
  "shown_description sd name = (case option_desc sd name of Inr d \<Rightarrow> d | Inl e \<Rightarrow> [])"

definition config_value :: "env \<Rightarrow> string \<Rightarrow> string \<Rightarrow> pyval" where
  "config_value E section name =
     (case config_get E section (Some name) of Inr v \<Rightarrow> v | Inl e \<Rightarrow> PyNone)"

definition option_row :: "env \<Rightarrow> string \<Rightarrow> sectdata \<Rightarrow> string \<Rightarrow> row" where
  "option_row E section sd name =
     \<lparr>row_name = PyStr name, row_desc = PyStr (shown_description sd name),
      row_misc = config_value E section name\<rparr>"

definition help_rows :: "configdata \<Rightarrow> row list" where
  "help_rows DATA =
     concat (map (\<lambda>(sectname, sd).
               map (\<lambda>optname. entry_row (sectname @ ''->'' @ optname,
                                           shown_description sd optname))
                 (sect_keys sd)) DATA)"

subsection \<open>Sample commands and saved state\<close>

definition open_command :: command where
  "open_command = \<lparr>cmd_name = ''open'', cmd_desc = ''Open a URL.'', cmd_hide = False,
                    cmd_debug = False\<rparr>"

definition quit_command :: command where
  "quit_command = \<lparr>cmd_name = ''quit'', cmd_desc = ''Quit qutebrowser.'', cmd_hide = False,
                    cmd_debug = False\<rparr>"

definition crash_command :: command where
  "crash_command = \<lparr>cmd_name = ''debug-crash'', cmd_desc = ''Crash for debugging.'',
                     cmd_hide = False, cmd_debug = True\<rparr>"

definition scroll_command :: command where
  "scroll_command = \<lparr>cmd_name = ''scroll'', cmd_desc = ''Scroll the page.'', cmd_hide = True,
                      cmd_debug = False\<rparr>"

definition example_commands :: "(string \<times> command) list" where
  "example_commands =
     [(''quit'', quit_command), (''open'', open_command), (''o'', open_command),
      (''debug-crash'', crash_command), (''scroll'', scroll_command)]"

definition example_aliases :: "(string \<times> string) list" where
  "example_aliases = [(''q'', ''quit'')]"

definition command_rows :: "row list" where
  "command_rows =
     [\<lparr>row_name = PyStr ''open'', row_desc = PyStr ''Open a URL.'', row_misc = PyNone\<rparr>,
      \<lparr>row_name = PyStr ''q'', row_desc = PyStr (''Alias for 'quit'' @ [CHR 0x27]),
       row_misc = PyNone\<rparr>,
      \<lparr>row_name = PyStr ''quit'', row_desc = PyStr ''Quit qutebrowser.'',
       row_misc = PyNone\<rparr>]"

definition help_command_rows :: "row list" where
  "help_command_rows =
     [\<lparr>row_name = PyStr '':open'', row_desc = PyStr ''Open a URL.'', row_misc = PyNone\<rparr>,
      \<lparr>row_name = PyStr '':quit'', row_desc = PyStr ''Quit qutebrowser.'',
       row_misc = PyNone\<rparr>]"

definition example_help :: BaseCompletionModel where
  "example_help =
     [\<lparr>cat_name = ''Commands'', cat_sort = None, cat_rows = help_command_rows\<rparr>,
      \<lparr>cat_name = ''Settings'', cat_sort = None,
       cat_rows =
         [\<lparr>row_name = PyStr ''general->editor'', row_desc = PyStr ''Editor to use.'',
           row_misc = PyNone\<rparr>,
          \<lparr>row_name = PyStr ''general->private'', row_desc = PyStr [], row_misc = PyNone\<rparr>,
          \<lparr>row_name = PyStr ''searchengines->DEFAULT'', row_desc = PyStr [],
           row_misc = PyNone\<rparr>]\<rparr>]"

definition reject_base64 :: "string \<Rightarrow> error + string" where
  "reject_base64 s = Inl BinasciiError"

definition keep_geometry :: "string \<Rightarrow> QRect \<Rightarrow> error + bool \<times> QRect" where
  "keep_geometry geom g = Inr (True, g)"

definition saved_state :: "string \<rightharpoonup> (string \<rightharpoonup> string)" where
  "saved_state = [''geometry'' \<mapsto> [''mainwindow'' \<mapsto> ''not base64!'']]"


section \<open>Properties of the main window\<close>







lemma resize_completion_raise:
  "resize_completion cfg w = Raise e w' \<Longrightarrow> w' = w"
  by (auto simp: resize_completion_def split: sum.splits prod.splits)















section \<open>Properties of the completion models\<close>

subsection \<open>The base model\<close>

lemma length_new_item [simp]: "length (snd (new_item c n d v m)) = length m"
  by (simp add: new_item_def Let_def)

lemma new_item_rows:
  "c < length m \<Longrightarrow>
     snd (new_item c n d v m) =
       m[c := (m ! c)\<lparr>cat_rows := cat_rows (m ! c)
                @ [\<lparr>row_name = n, row_desc = d, row_misc = v\<rparr>]\<rparr>]"
  by (simp add: new_item_def Let_def)

lemma new_items_rows:
  "c < length m \<Longrightarrow>
     new_items c xs m = m[c := (m ! c)\<lparr>cat_rows := cat_rows (m ! c) @ map entry_row xs\<rparr>]"
proof (induction xs arbitrary: m)
  case Nil
  then show ?case by simp
next
  case (Cons x xs)
  obtain name desc where x: "x = (name, desc)" by (cases x)
  let ?m = "snd (new_item c (PyStr name) (PyStr desc) PyNone m)"
  from Cons.prems have "c < length ?m" by simp
  from Cons.IH [OF this] Cons.prems show ?case
    by (simp add: x new_item_rows entry_row_def)
qed

lemma standard_setData_stores: "stores_value standard_setData"
  unfolding stores_value_def
proof (intro allI impI)
  fix m idx v m'
  assume a: "standard_setData m idx v = (True, m')"
  then obtain c r k where idx: "idx = Some (c, r, k)"
    by (cases idx) (auto simp: standard_setData_def)
  from a idx have ok: "item_data m (c, r, k) \<noteq> None"
    and m': "m' = m[c := (m ! c)\<lparr>cat_rows :=
                  (cat_rows (m ! c))[r := set_column k v (cat_rows (m ! c) ! r)]\<rparr>]"
    by (auto simp: standard_setData_def split: if_splits)
  from ok have rng: "c < length m" "r < length (cat_rows (m ! c))" "k < 3"
    by (auto simp: item_data_def split: if_splits)
  have "item_data m' (c, r, k) = Some v"
    using rng by (simp add: m' item_data_def column_def set_column_def)
  with idx show "\<exists>it. idx = Some it \<and> item_data m' it = Some v" by simp
qed

lemma index_of_Some: "index_of m it = Some it' \<Longrightarrow> it' = it"
  by (simp add: index_of_def split: if_splits)

subsection \<open>Updates after a configuration change\<close>

text \<open>
  Claim C4. When the option has no item in \<^verbatim>\<open>_misc_items\<close>, \<open>update_misc_column\<close>
  writes one debug message to the log and returns without an error, and the model is
  exactly what it was.
\<close>

theorem update_misc_column_missing_item:
  assumes "misc_items s option = None"
  shows "update_misc_column E section option (s, msgs) =
           Inr (s, msgs @ [''Couldn't get item '' @ section @ ''.'' @ option
                            @ '' from model!''])"
  using assms by (simp add: update_misc_column_def couldnt_get_def)

theorem update_misc_column_missing_item_witness:
  "misc_items general_options ''colors'' = None
   \<and> update_misc_column example_env ''general'' ''colors'' (general_options, []) =
       Inr (general_options, [''Couldn't get item general.colors from model!''])"
proof -
  have h: "misc_items general_options ''colors'' = None"
    by (simp add: general_options_def)
  show ?thesis
    using update_misc_column_missing_item [OF h, of example_env "''general''" "[]"] h
    by simp
qed

text \<open>
  Claim C2. Once the target item is found and \<^verbatim>\<open>setData\<close> is called (the
  configuration read and the validity check before it have passed), a \<^verbatim>\<open>setData\<close>
  that returns false makes the method raise \<^verbatim>\<open>ValueError\<close> with a message that
  names the section, the option and the value; when \<^verbatim>\<open>setData\<close> returns true the
  method returns without an error, with the model \<^verbatim>\<open>setData\<close> left. This holds for
  \<open>update_misc_column\<close> and for \<open>update_current_value\<close>, whatever \<^verbatim>\<open>setData\<close> is.
\<close>

theorem setData_failure_raises:
  "(misc_items s option = Some it
      \<and> config_get E sec (Some option) = Inr val
      \<and> ensure_valid E (index_of (option_model s) it) = Inr u
      \<and> setData E (option_model s) (index_of (option_model s) it) val = (ok, m')
    \<longrightarrow> update_misc_column E sec option (s, msgs) =
          (if ok then Inr (s\<lparr>option_model := m'\<rparr>, msgs)
           else Inl (ValueError
                  (''Setting data failed! (section: '' @ sec @ '', option: '' @ option
                     @ '', value: '' @ py_format val @ '')''))))
   \<and> (config_get E' sect opt = Inr v
      \<and> ensure_valid E' (index_of (value_model t) (cur_item t)) = Inr u'
      \<and> setData E' (value_model t) (index_of (value_model t) (cur_item t)) (shown_value v)
          = (ok', m'')
    \<longrightarrow> update_current_value E' sect opt t =
          (if ok' then Inr (t\<lparr>value_model := m''\<rparr>)
           else Inl (ValueError
                  (''Setting data failed! (section: '' @ sect @ '', option: ''
                     @ opt_format opt @ '', value: '' @ py_format (shown_value v) @ '')''))))"
  by (simp add: update_misc_column_def update_current_value_def setting_failed_def Let_def)

lemma general_options_editor:
  "misc_items general_options ''editor'' = Some (0, 0, 2)"
  "index_of (option_model general_options) (0, 0, 2) = Some (0, 0, 2)"
  by (simp_all add: general_options_def general_rows_def index_of_def item_data_def)

lemma stale_values_index:
  "index_of (value_model stale_values) (cur_item stale_values) = Some (0, 0, 0)"
  by (simp add: stale_values_def index_of_def item_data_def)

theorem setData_failure_raises_witness:
  "misc_items general_options ''editor'' = Some (0, 0, 2)
   \<and> config_get refusing_env ''general'' (Some ''editor'') = Inr (PyStr ''vim'')
   \<and> ensure_valid refusing_env (index_of (option_model general_options) (0, 0, 2)) = Inr ()
   \<and> setData refusing_env (option_model general_options)
        (index_of (option_model general_options) (0, 0, 2)) (PyStr ''vim'')
       = (False, option_model general_options)
   \<and> update_misc_column refusing_env ''general'' ''editor'' (general_options, []) =
       Inl (ValueError
             ''Setting data failed! (section: general, option: editor, value: vim)'')
   \<and> config_get refusing_env ''general'' None = Inr (PyStr [])
   \<and> ensure_valid refusing_env (index_of (value_model stale_values) (cur_item stale_values))
       = Inr ()
   \<and> setData refusing_env (value_model stale_values)
        (index_of (value_model stale_values) (cur_item stale_values))
        (shown_value (PyStr [])) = (False, value_model stale_values)
   \<and> update_current_value refusing_env ''general'' None stale_values =
       Inl (ValueError
             (''Setting data failed! (section: general, option: None, value: ''
                @ two_quotes @ '')''))
   \<and> setData example_env (value_model stale_values)
        (index_of (value_model stale_values) (cur_item stale_values))
        (shown_value (PyStr ''vim'')) = (True, value_model fresh_values)
   \<and> update_current_value example_env ''general'' (Some ''editor'') stale_values =
       Inr (stale_values\<lparr>value_model := value_model fresh_values\<rparr>)"
proof -
  have a: "misc_items general_options ''editor'' = Some (0, 0, 2)
      \<and> config_get refusing_env ''general'' (Some ''editor'') = Inr (PyStr ''vim'')
      \<and> ensure_valid refusing_env (index_of (option_model general_options) (0, 0, 2)) = Inr ()
      \<and> setData refusing_env (option_model general_options)
           (index_of (option_model general_options) (0, 0, 2)) (PyStr ''vim'')
          = (False, option_model general_options)"
    by (simp add: general_options_editor refusing_env_def example_env_def)
  have b: "config_get refusing_env ''general'' None = Inr (PyStr [])
      \<and> ensure_valid refusing_env (index_of (value_model stale_values) (cur_item stale_values))
          = Inr ()
      \<and> setData refusing_env (value_model stale_values)
           (index_of (value_model stale_values) (cur_item stale_values))
           (shown_value (PyStr [])) = (False, value_model stale_values)"
    by (simp add: stale_values_index refusing_env_def example_env_def)
  note t = setData_failure_raises [where s = general_options and option = "''editor''"
      and it = "(0, 0, 2)" and E = refusing_env and sec = "''general''"
      and val = "PyStr ''vim''" and u = "()" and ok = False
      and m' = "option_model general_options" and msgs = "[]"
      and E' = refusing_env and sect = "''general''" and opt = None and v = "PyStr []"
      and t = stale_values and u' = "()" and ok' = False
      and m'' = "value_model stale_values"]
  from t a have c: "update_misc_column refusing_env ''general'' ''editor'' (general_options, [])
      = Inl (ValueError
             ''Setting data failed! (section: general, option: editor, value: vim)'')"
    by simp
  from t b have d: "update_current_value refusing_env ''general'' None stale_values =
       Inl (ValueError
             (''Setting data failed! (section: general, option: None, value: ''
                @ two_quotes @ '')''))"
    by (simp add: shown_value_def)
  have e: "config_get example_env ''general'' (Some ''editor'') = Inr (PyStr ''vim'')
      \<and> ensure_valid example_env (index_of (value_model stale_values) (cur_item stale_values))
          = Inr ()
      \<and> setData example_env (value_model stale_values)
           (index_of (value_model stale_values) (cur_item stale_values))
           (shown_value (PyStr ''vim'')) = (True, value_model fresh_values)"
    by (simp add: index_of_def example_env_def shown_value_def standard_setData_def
        stale_values_def fresh_values_def item_data_def set_column_def)
  from e setData_failure_raises [where E' = example_env and sect = "''general''"
      and opt = "Some ''editor''" and v = "PyStr ''vim''" and t = stale_values and u' = "()"
      and ok' = True and m'' = "value_model fresh_values", THEN conjunct2]
  have f: "update_current_value example_env ''general'' (Some ''editor'') stale_values =
       Inr (stale_values\<lparr>value_model := value_model fresh_values\<rparr>)"
    by simp
  from a b c d e f show ?thesis by simp
qed

text \<open>
  Claim C5, as the specification has it, fails for \<open>update_current_value\<close>: with an
  empty configuration value the run succeeds and the item displays the two quote
  characters, not the value \<^verbatim>\<open>config.get\<close> returned.
\<close>

theorem update_current_value_shows_quotes:
  "config_get example_env ''general'' (Some ''private'') = Inr (PyStr [])
   \<and> map_sum id current_display
        (update_current_value example_env ''general'' (Some ''private'') stale_values)
       = Inr (Some (PyStr [CHR 0x22, CHR 0x22]))
   \<and> PyStr [CHR 0x22, CHR 0x22] \<noteq> PyStr []"
  by (simp add: update_current_value_def example_env_def stale_values_def index_of_def
      item_data_def column_def set_column_def standard_setData_def shown_value_def
      two_quotes_def current_display_def Let_def)

text \<open>
  Claim C5, amended. With a \<^verbatim>\<open>setData\<close> that stores what it reports stored: after a
  run of \<open>update_misc_column\<close> that returns and whose option has an item, that item
  displays the value \<^verbatim>\<open>config.get(section, option, raw=True)\<close> returned; after a run
  of \<open>update_current_value\<close> that returns, the current item displays that value when
  it is truthy, and the two quote characters when it is falsy.
\<close>

theorem display_reflects_config:
  assumes "stores_value (setData E)"
  shows "(update_misc_column E sec option (s, msgs) = Inr (s', msgs')
            \<and> misc_items s option = Some it
          \<longrightarrow> (\<exists>val. config_get E sec (Some option) = Inr val
                 \<and> item_data (option_model s') it = Some val))
       \<and> (update_current_value E sect opt t = Inr t'
          \<longrightarrow> (\<exists>v. config_get E sect opt = Inr v
                 \<and> item_data (value_model t') (cur_item t')
                     = Some (if truthy v then v else PyStr two_quotes)))"
proof (intro conjI impI)
  assume a: "update_misc_column E sec option (s, msgs) = Inr (s', msgs')
             \<and> misc_items s option = Some it"
  then obtain val where val: "config_get E sec (Some option) = Inr val"
    by (auto simp: update_misc_column_def split: sum.splits)
  obtain ok m' where sd: "setData E (option_model s) (index_of (option_model s) it) val
                            = (ok, m')"
    by (cases "setData E (option_model s) (index_of (option_model s) it) val")
  from a val sd have ok: "ok" and s': "s' = s\<lparr>option_model := m'\<rparr>"
    by (auto simp: update_misc_column_def Let_def split: sum.splits if_splits)
  from sd ok have "setData E (option_model s) (index_of (option_model s) it) val = (True, m')"
    by simp
  with assms obtain it' where
    "index_of (option_model s) it = Some it'" "item_data m' it' = Some val"
    unfolding stores_value_def by blast
  then have "item_data m' it = Some val"
    using index_of_Some by blast
  with val s' show "\<exists>val. config_get E sec (Some option) = Inr val
      \<and> item_data (option_model s') it = Some val"
    by simp
next
  assume a: "update_current_value E sect opt t = Inr t'"
  then obtain v where v: "config_get E sect opt = Inr v"
    by (auto simp: update_current_value_def split: sum.splits)
  obtain ok m' where sd: "setData E (value_model t) (index_of (value_model t) (cur_item t))
                            (shown_value v) = (ok, m')"
    by (cases "setData E (value_model t) (index_of (value_model t) (cur_item t))
                 (shown_value v)")
  from a v sd have ok: "ok" and t': "t' = t\<lparr>value_model := m'\<rparr>"
    by (auto simp: update_current_value_def Let_def split: sum.splits if_splits)
  from sd ok have "setData E (value_model t) (index_of (value_model t) (cur_item t))
                     (shown_value v) = (True, m')"
    by simp
  with assms obtain it' where
    "index_of (value_model t) (cur_item t) = Some it'"
    "item_data m' it' = Some (shown_value v)"
    unfolding stores_value_def by blast
  then have "item_data m' (cur_item t) = Some (shown_value v)"
    using index_of_Some by blast
  with v t' show "\<exists>v. config_get E sect opt = Inr v
      \<and> item_data (value_model t') (cur_item t')
          = Some (if truthy v then v else PyStr two_quotes)"
    by (simp add: shown_value_def)
qed

lemma update_editor_column:
  "update_misc_column example_env ''general'' ''editor'' (stale_options, [])
     = Inr (general_options, [])"
  by (simp add: update_misc_column_def example_env_def general_options_def stale_options_def
      general_rows_def index_of_def item_data_def column_def set_column_def
      standard_setData_def Let_def)

lemma update_stale_values:
  "update_current_value example_env ''general'' (Some ''editor'') stale_values
     = Inr fresh_values"
  by (simp add: update_current_value_def example_env_def stale_values_def fresh_values_def
      index_of_def item_data_def column_def set_column_def standard_setData_def
      shown_value_def Let_def)

theorem display_reflects_config_witness:
  "stores_value (setData example_env)
   \<and> update_misc_column example_env ''general'' ''editor'' (stale_options, [])
       = Inr (general_options, [])
   \<and> misc_items stale_options ''editor'' = Some (0, 0, 2)
   \<and> config_get example_env ''general'' (Some ''editor'') = Inr (PyStr ''vim'')
   \<and> item_data (option_model general_options) (0, 0, 2) = Some (PyStr ''vim'')
   \<and> update_current_value example_env ''general'' (Some ''editor'') stale_values
       = Inr fresh_values
   \<and> item_data (value_model fresh_values) (cur_item fresh_values) = Some (PyStr ''vim'')"
proof -
  have st: "stores_value (setData example_env)"
    by (simp add: example_env_def standard_setData_stores)
  have it: "misc_items stale_options ''editor'' = Some (0, 0, 2)"
    by (simp add: stale_options_def)
  have cfg: "config_get example_env ''general'' (Some ''editor'') = Inr (PyStr ''vim'')"
    by (simp add: example_env_def)
  note t = display_reflects_config [OF st, where sec = "''general''" and option = "''editor''"
      and s = stale_options and s' = general_options
      and it = "(0, 0, 2)" and msgs = "[]" and msgs' = "[]"
      and sect = "''general''" and opt = "Some ''editor''" and t = stale_values
      and t' = fresh_values]
  from t [THEN conjunct1] update_editor_column it cfg
  have a: "item_data (option_model general_options) (0, 0, 2) = Some (PyStr ''vim'')"
    by simp
  from t [THEN conjunct2] update_stale_values cfg
  have b: "item_data (value_model fresh_values) (cur_item fresh_values) = Some (PyStr ''vim'')"
    by simp
  from st it cfg a b update_editor_column update_stale_values show ?thesis by simp
qed

subsection \<open>\<^verbatim>\<open>SettingValueCompletionModel\<close>\<close>

text \<open>
  What the constructor builds when it returns: the Current category with the shown
  value, then the Allowed category when \<^verbatim>\<open>complete()\<close> gave a list.
\<close>

lemma SettingValueCompletionModel_init_result:
  assumes "config_get E section option = Inr v"
    and "map_of DATA section = Some sd"
    and "allowed_values section option sd = Inr vals"
  shows "SettingValueCompletionModel_init E DATA section option =
           Inr \<lparr>value_model =
                  \<lparr>cat_name = ''Current'', cat_sort = Some 0,
                   cat_rows = [\<lparr>row_name = shown_value v, row_desc = PyStr ''Current value'',
                                row_misc = PyNone\<rparr>]\<rparr>
                  # (case vals of
                       None \<Rightarrow> []
                     | Some vs \<Rightarrow> [\<lparr>cat_name = ''Allowed'', cat_sort = Some 1,
                                     cat_rows = map entry_row vs\<rparr>]),
                cur_item = (0, 0, 0)\<rparr>"
proof (cases vals)
  case None
  with assms show ?thesis
    by (simp add: SettingValueCompletionModel_init_def new_category_def new_item_def Let_def)
next
  case (Some vs)
  have "new_items (Suc 0) vs
          [\<lparr>cat_name = ''Current'', cat_sort = Some 0,
            cat_rows = [\<lparr>row_name = shown_value v, row_desc = PyStr ''Current value'',
                         row_misc = PyNone\<rparr>]\<rparr>,
           \<lparr>cat_name = ''Allowed'', cat_sort = Some 1, cat_rows = []\<rparr>]
        = [\<lparr>cat_name = ''Current'', cat_sort = Some 0,
            cat_rows = [\<lparr>row_name = shown_value v, row_desc = PyStr ''Current value'',
                         row_misc = PyNone\<rparr>]\<rparr>,
           \<lparr>cat_name = ''Allowed'', cat_sort = Some 1, cat_rows = map entry_row vs\<rparr>]"
    by (simp add: new_items_rows)
  with assms Some show ?thesis
    by (simp add: SettingValueCompletionModel_init_def new_category_def new_item_def Let_def)
qed

lemma SettingValueCompletionModel_init_Inr:
  assumes "SettingValueCompletionModel_init E DATA section option = Inr s"
  obtains v sd vals where "config_get E section option = Inr v"
    and "map_of DATA section = Some sd"
    and "allowed_values section option sd = Inr vals"
  using assms
  by (auto simp: SettingValueCompletionModel_init_def new_category_def
      split: sum.splits option.splits prod.splits)

text \<open>
  Claim C10. Whenever the configuration value \<open>SettingValueCompletionModel\<close> reads is
  falsy (the empty string or \<^verbatim>\<open>None\<close>), the current item displays the two-character
  string of two double quotes: after a construction that returns, and after an
  \<open>update_current_value\<close> that returns (with a \<^verbatim>\<open>setData\<close> that stores what it reports
  stored).
\<close>

theorem falsy_value_shown_as_quotes:
  "(SettingValueCompletionModel_init E DATA sec option = Inr s
      \<and> config_get E sec option = Inr v \<and> \<not> truthy v
    \<longrightarrow> item_data (value_model s) (cur_item s) = Some (PyStr [CHR 0x22, CHR 0x22]))
   \<and> (stores_value (setData E')
      \<and> update_current_value E' sect opt t = Inr t'
      \<and> config_get E' sect opt = Inr v' \<and> \<not> truthy v'
    \<longrightarrow> item_data (value_model t') (cur_item t') = Some (PyStr [CHR 0x22, CHR 0x22]))"
proof (intro conjI impI)
  assume a: "SettingValueCompletionModel_init E DATA sec option = Inr s
      \<and> config_get E sec option = Inr v \<and> \<not> truthy v"
  then obtain sd vals where "map_of DATA sec = Some sd"
    "allowed_values sec option sd = Inr vals"
    by (auto elim: SettingValueCompletionModel_init_Inr)
  from SettingValueCompletionModel_init_result [OF _ this, of E v] a
  show "item_data (value_model s) (cur_item s) = Some (PyStr [CHR 0x22, CHR 0x22])"
    by (auto simp: item_data_def column_def shown_value_def two_quotes_def)
next
  assume a: "stores_value (setData E')
      \<and> update_current_value E' sect opt t = Inr t'
      \<and> config_get E' sect opt = Inr v' \<and> \<not> truthy v'"
  obtain ok m' where sd: "setData E' (value_model t) (index_of (value_model t) (cur_item t))
                            (shown_value v') = (ok, m')"
    by (cases "setData E' (value_model t) (index_of (value_model t) (cur_item t))
                 (shown_value v')")
  from a sd have ok: "ok" and t': "t' = t\<lparr>value_model := m'\<rparr>"
    by (auto simp: update_current_value_def Let_def split: sum.splits if_splits)
  from sd ok have "setData E' (value_model t) (index_of (value_model t) (cur_item t))
                     (shown_value v') = (True, m')"
    by simp
  with a obtain it' where
    "index_of (value_model t) (cur_item t) = Some it'"
    "item_data m' it' = Some (shown_value v')"
    unfolding stores_value_def by blast
  then have "item_data m' (cur_item t) = Some (shown_value v')"
    using index_of_Some by blast
  with a t' show "item_data (value_model t') (cur_item t') = Some (PyStr [CHR 0x22, CHR 0x22])"
    by (simp add: shown_value_def two_quotes_def)
qed

lemma private_values_init:
  "SettingValueCompletionModel_init example_env example_data ''general'' (Some ''private'')
     = Inr private_values"
  by (simp add: SettingValueCompletionModel_init_def example_data_def general_section_def
      new_category_def new_item_def allowed_values_def shown_value_def
      example_env_def private_values_def Let_def entry_row_def)

lemma update_to_empty:
  "update_current_value example_env ''general'' (Some ''private'') stale_values
     = Inr (stale_values\<lparr>value_model :=
         [\<lparr>cat_name = ''Current'', cat_sort = Some 0,
           cat_rows = [\<lparr>row_name = PyStr two_quotes, row_desc = PyStr ''Current value'',
                        row_misc = PyNone\<rparr>]\<rparr>]\<rparr>)"
  by (simp add: update_current_value_def example_env_def stale_values_def
      index_of_def item_data_def column_def set_column_def standard_setData_def
      shown_value_def Let_def)

theorem falsy_value_shown_as_quotes_witness:
  "SettingValueCompletionModel_init example_env example_data ''general'' (Some ''private'')
     = Inr private_values
   \<and> config_get example_env ''general'' (Some ''private'') = Inr (PyStr [])
   \<and> \<not> truthy (PyStr [])
   \<and> item_data (value_model private_values) (cur_item private_values)
       = Some (PyStr [CHR 0x22, CHR 0x22])
   \<and> stores_value (setData example_env)
   \<and> map_sum id (\<lambda>t. item_data (value_model t) (cur_item t))
        (update_current_value example_env ''general'' (Some ''private'') stale_values)
       = Inr (Some (PyStr [CHR 0x22, CHR 0x22]))"
proof -
  have st: "stores_value (setData example_env)"
    by (simp add: example_env_def standard_setData_stores)
  have cfg: "config_get example_env ''general'' (Some ''private'') = Inr (PyStr [])"
    by (simp add: example_env_def)
  note t = falsy_value_shown_as_quotes [where E = example_env and DATA = example_data
      and sec = "''general''" and option = "Some ''private''" and s = private_values
      and v = "PyStr []" and E' = example_env and sect = "''general''"
      and opt = "Some ''private''" and t = stale_values and v' = "PyStr []"
      and t' = "stale_values\<lparr>value_model :=
         [\<lparr>cat_name = ''Current'', cat_sort = Some 0,
           cat_rows = [\<lparr>row_name = PyStr two_quotes, row_desc = PyStr ''Current value'',
                        row_misc = PyNone\<rparr>]\<rparr>]\<rparr>"]
  from t [THEN conjunct1] private_values_init cfg
  have a: "item_data (value_model private_values) (cur_item private_values)
       = Some (PyStr [CHR 0x22, CHR 0x22])"
    by simp
  from t [THEN conjunct2] st update_to_empty cfg
  have "item_data (value_model (stale_values\<lparr>value_model :=
         [\<lparr>cat_name = ''Current'', cat_sort = Some 0,
           cat_rows = [\<lparr>row_name = PyStr two_quotes, row_desc = PyStr ''Current value'',
                        row_misc = PyNone\<rparr>]\<rparr>]\<rparr>))
          (cur_item (stale_values\<lparr>value_model :=
         [\<lparr>cat_name = ''Current'', cat_sort = Some 0,
           cat_rows = [\<lparr>row_name = PyStr two_quotes, row_desc = PyStr ''Current value'',
                        row_misc = PyNone\<rparr>]\<rparr>]\<rparr>))
       = Some (PyStr [CHR 0x22, CHR 0x22])"
    by simp
  then have b: "map_sum id (\<lambda>t. item_data (value_model t) (cur_item t))
        (update_current_value example_env ''general'' (Some ''private'') stale_values)
       = Inr (Some (PyStr [CHR 0x22, CHR 0x22]))"
    by (simp only: update_to_empty map_sum.simps)
  from private_values_init cfg a st b show ?thesis by simp
qed

text \<open>
  Claim C9. Constructing \<open>SettingValueCompletionModel\<close> with \<^verbatim>\<open>option=None\<close> (the
  configuration read before the test having returned): for a section without a
  \<^verbatim>\<open>valtype\<close> attribute the constructor raises \<^verbatim>\<open>ValueError\<close> with a message naming
  the section; for a section with a \<^verbatim>\<open>valtype\<close> the constructor returns, and the
  values listed under Allowed are those of \<^verbatim>\<open>valtype.complete()\<close>.
\<close>

theorem none_option_only_for_valuelist:
  assumes "config_get E sec None = Inr v"
    and "map_of DATA sec = Some sd"
  shows "(valtype sd = None \<longrightarrow>
            SettingValueCompletionModel_init E DATA sec None =
              Inl (ValueError (''option may only be None for ValueList sections, but ''
                                 @ sec @ '' is not!'')))
       \<and> (valtype sd = Some vals \<longrightarrow>
            SettingValueCompletionModel_init E DATA sec None =
              Inr \<lparr>value_model =
                     \<lparr>cat_name = ''Current'', cat_sort = Some 0,
                      cat_rows = [\<lparr>row_name = shown_value v,
                                   row_desc = PyStr ''Current value'', row_misc = PyNone\<rparr>]\<rparr>
                     # (case vals of
                          None \<Rightarrow> []
                        | Some vs \<Rightarrow> [\<lparr>cat_name = ''Allowed'', cat_sort = Some 1,
                                        cat_rows = map entry_row vs\<rparr>]),
                   cur_item = (0, 0, 0)\<rparr>)"
proof (intro conjI impI)
  assume "valtype sd = None"
  with assms show "SettingValueCompletionModel_init E DATA sec None =
      Inl (ValueError (''option may only be None for ValueList sections, but ''
                         @ sec @ '' is not!''))"
    by (simp add: SettingValueCompletionModel_init_def new_category_def new_item_def
        allowed_values_def none_option_message_def Let_def)
next
  assume "valtype sd = Some vals"
  then have "allowed_values sec None sd = Inr vals"
    by (simp add: allowed_values_def)
  from SettingValueCompletionModel_init_result [OF assms this]
  show "SettingValueCompletionModel_init E DATA sec None =
      Inr \<lparr>value_model =
             \<lparr>cat_name = ''Current'', cat_sort = Some 0,
              cat_rows = [\<lparr>row_name = shown_value v,
                           row_desc = PyStr ''Current value'', row_misc = PyNone\<rparr>]\<rparr>
             # (case vals of
                  None \<Rightarrow> []
                | Some vs \<Rightarrow> [\<lparr>cat_name = ''Allowed'', cat_sort = Some 1,
                                cat_rows = map entry_row vs\<rparr>]),
           cur_item = (0, 0, 0)\<rparr>" .
qed

theorem none_option_only_for_valuelist_witness:
  "config_get example_env ''general'' None = Inr (PyStr [])
   \<and> map_of example_data ''general'' = Some general_section
   \<and> valtype general_section = None
   \<and> SettingValueCompletionModel_init example_env example_data ''general'' None =
       Inl (ValueError
             ''option may only be None for ValueList sections, but general is not!'')
   \<and> config_get example_env ''searchengines'' None = Inr (PyStr [])
   \<and> map_of example_data ''searchengines'' = Some searchengines_section
   \<and> valtype searchengines_section = Some (Some [(''{}'', ''Search term'')])
   \<and> SettingValueCompletionModel_init example_env example_data ''searchengines'' None =
       Inr \<lparr>value_model =
              [\<lparr>cat_name = ''Current'', cat_sort = Some 0,
                cat_rows = [\<lparr>row_name = PyStr two_quotes,
                             row_desc = PyStr ''Current value'', row_misc = PyNone\<rparr>]\<rparr>,
               \<lparr>cat_name = ''Allowed'', cat_sort = Some 1,
                cat_rows = [\<lparr>row_name = PyStr ''{}'', row_desc = PyStr ''Search term'',
                             row_misc = PyNone\<rparr>]\<rparr>],
            cur_item = (0, 0, 0)\<rparr>"
proof -
  have c1: "config_get example_env ''general'' None = Inr (PyStr [])"
    and c2: "config_get example_env ''searchengines'' None = Inr (PyStr [])"
    by (simp_all add: example_env_def)
  have d1: "map_of example_data ''general'' = Some general_section"
    and d2: "map_of example_data ''searchengines'' = Some searchengines_section"
    by (simp_all add: example_data_def)
  have v1: "valtype general_section = None"
    and v2: "valtype searchengines_section = Some (Some [(''{}'', ''Search term'')])"
    by (simp_all add: general_section_def searchengines_section_def)
  from none_option_only_for_valuelist [OF c1 d1] v1
  have a: "SettingValueCompletionModel_init example_env example_data ''general'' None =
       Inl (ValueError
             ''option may only be None for ValueList sections, but general is not!'')"
    by simp
  from none_option_only_for_valuelist [OF c2 d2, of "Some [(''{}'', ''Search term'')]"] v2
  have b: "SettingValueCompletionModel_init example_env example_data ''searchengines'' None =
       Inr \<lparr>value_model =
              [\<lparr>cat_name = ''Current'', cat_sort = Some 0,
                cat_rows = [\<lparr>row_name = PyStr two_quotes,
                             row_desc = PyStr ''Current value'', row_misc = PyNone\<rparr>]\<rparr>,
               \<lparr>cat_name = ''Allowed'', cat_sort = Some 1,
                cat_rows = [\<lparr>row_name = PyStr ''{}'', row_desc = PyStr ''Search term'',
                             row_misc = PyNone\<rparr>]\<rparr>],
            cur_item = (0, 0, 0)\<rparr>"
    by (simp add: shown_value_def entry_row_def)
  from c1 c2 d1 d2 v1 v2 a b show ?thesis by simp
qed

subsection \<open>\<^verbatim>\<open>QuickmarkCompletionModel\<close>\<close>

lemma count_list_distinct: "distinct xs \<Longrightarrow> x \<in> set xs \<Longrightarrow> count_list xs x = 1"
  by (induction xs) auto

lemma QuickmarkCompletionModel_rows:
  "QuickmarkCompletionModel_init marks =
     [\<lparr>cat_name = ''Quickmarks'', cat_sort = None,
       cat_rows = map (\<lambda>(qm_name, qm_url). entry_row (qm_url, qm_name)) marks\<rparr>]"
proof -
  have "new_items 0 (map (\<lambda>(qm_name, qm_url). (qm_url, qm_name)) marks)
          [\<lparr>cat_name = ''Quickmarks'', cat_sort = None, cat_rows = []\<rparr>]
        = [\<lparr>cat_name = ''Quickmarks'', cat_sort = None,
            cat_rows = map entry_row (map (\<lambda>(qm_name, qm_url). (qm_url, qm_name)) marks)\<rparr>]"
    by (simp add: new_items_rows)
  moreover have "map entry_row (map (\<lambda>(qm_name, qm_url). (qm_url, qm_name)) marks)
      = map (\<lambda>(qm_name, qm_url). entry_row (qm_url, qm_name)) marks"
    by (induction marks) auto
  ultimately show ?thesis
    by (simp add: QuickmarkCompletionModel_init_def on_quickmarks_changed_def
        new_category_def)
qed

text \<open>
  Claim C7, as the specification has it, fails: the one row built for the quickmark
  named home has the URL in its name field and the name in its description field.
\<close>

theorem quickmark_row_fields_swapped:
  "map row_name (cat_rows (QuickmarkCompletionModel_init
       [(''home'', ''http://example.org/'')] ! 0)) = [PyStr ''http://example.org/'']
   \<and> map row_desc (cat_rows (QuickmarkCompletionModel_init
       [(''home'', ''http://example.org/'')] ! 0)) = [PyStr ''home'']
   \<and> PyStr ''http://example.org/'' \<noteq> PyStr ''home''"
  by (simp add: QuickmarkCompletionModel_rows entry_row_def)

text \<open>
  Claim C7, amended. The model has the one category Quickmarks, and its rows are the
  quickmarks of the manager in order, one row each: the name field of a row is the
  quickmark's URL and its description field is the quickmark's name. As the names of a
  dictionary are distinct, every quickmark has exactly one such row.
\<close>

theorem quickmark_rows:
  "QuickmarkCompletionModel_init marks =
     [\<lparr>cat_name = ''Quickmarks'', cat_sort = None,
       cat_rows = map (\<lambda>(qm_name, qm_url).
                    \<lparr>row_name = PyStr qm_url, row_desc = PyStr qm_name, row_misc = PyNone\<rparr>)
                    marks\<rparr>]
   \<and> (distinct (map fst marks) \<and> (qm_name, qm_url) \<in> set marks \<longrightarrow>
        count_list (cat_rows (QuickmarkCompletionModel_init marks ! 0))
          \<lparr>row_name = PyStr qm_url, row_desc = PyStr qm_name, row_misc = PyNone\<rparr> = 1)"
proof (intro conjI impI)
  let ?row = "\<lambda>(qm_name, qm_url).
      \<lparr>row_name = PyStr qm_url, row_desc = PyStr qm_name, row_misc = PyNone\<rparr>"
  have eq: "(\<lambda>(qm_name, qm_url). entry_row (qm_url, qm_name)) = ?row"
    by (simp add: fun_eq_iff entry_row_def)
  show init: "QuickmarkCompletionModel_init marks =
     [\<lparr>cat_name = ''Quickmarks'', cat_sort = None, cat_rows = map ?row marks\<rparr>]"
    by (simp add: QuickmarkCompletionModel_rows eq)
  assume a: "distinct (map fst marks) \<and> (qm_name, qm_url) \<in> set marks"
  have inj: "inj ?row"
    by (auto simp: inj_on_def)
  from a have "distinct marks"
    by (simp add: distinct_map)
  with inj have "distinct (map ?row marks)"
    by (simp add: distinct_map inj_on_subset [OF _ subset_UNIV])
  moreover from a have "?row (qm_name, qm_url) \<in> set (map ?row marks)"
    by (metis (no_types, lifting) image_eqI list.set_map)
  ultimately have "count_list (map ?row marks) (?row (qm_name, qm_url)) = 1"
    by (simp add: count_list_distinct)
  then show "count_list (cat_rows (QuickmarkCompletionModel_init marks ! 0))
          \<lparr>row_name = PyStr qm_url, row_desc = PyStr qm_name, row_misc = PyNone\<rparr> = 1"
    by (simp add: init)
qed

theorem quickmark_rows_witness:
  "distinct (map fst [(''home'', ''http://example.org/''), (''wiki'', ''http://example.org/'')])
   \<and> (''wiki'', ''http://example.org/'')
        \<in> set [(''home'', ''http://example.org/''), (''wiki'', ''http://example.org/'')]
   \<and> count_list (cat_rows (QuickmarkCompletionModel_init
        [(''home'', ''http://example.org/''), (''wiki'', ''http://example.org/'')] ! 0))
        \<lparr>row_name = PyStr ''http://example.org/'', row_desc = PyStr ''wiki'',
         row_misc = PyNone\<rparr> = 1"
  using quickmark_rows [of "[(''home'', ''http://example.org/''), (''wiki'', ''http://example.org/'')]"
      "''wiki''" "''http://example.org/''"]
  by simp

subsection \<open>Option descriptions in \<^verbatim>\<open>SettingOptionCompletionModel\<close> and \<^verbatim>\<open>HelpCompletionModel\<close>\<close>

lemma option_desc_no_description: "no_description sd name \<Longrightarrow> option_desc sd name = Inr []"
  by (auto simp: no_description_def option_desc_def lookup_description_def
      split: option.splits)

lemma shown_description_no_description:
  "no_description sd name \<Longrightarrow> shown_description sd name = []"
  by (simp add: shown_description_def option_desc_no_description)

lemma fill_options_rows:
  assumes "fill_options E sec sd c names s = Inr s'"
    and "c < length (option_model s)"
  shows "option_model s' =
           (option_model s)[c := (option_model s ! c)
              \<lparr>cat_rows := cat_rows (option_model s ! c) @ map (option_row E sec sd) names\<rparr>]"
  using assms
proof (induction names arbitrary: s)
  case Nil
  then show ?case by simp
next
  case (Cons name names)
  from Cons.prems(1) obtain desc v where
    d: "option_desc sd name = Inr desc" and v: "config_get E sec (Some name) = Inr v"
    by (auto split: sum.splits)
  let ?r = "\<lparr>row_name = PyStr name, row_desc = PyStr desc, row_misc = v\<rparr>"
  let ?m = "(option_model s)[c := (option_model s ! c)
              \<lparr>cat_rows := cat_rows (option_model s ! c) @ [?r]\<rparr>]"
  let ?s = "s\<lparr>option_model := ?m,
              misc_items := (misc_items s)(name \<mapsto>
                 (c, length (cat_rows (option_model s ! c)), 2))\<rparr>"
  from Cons.prems d v have step: "fill_options E sec sd c names ?s = Inr s'"
    by (simp add: new_item_def Let_def)
  have len: "c < length (option_model ?s)"
    using Cons.prems(2) by simp
  have r: "option_row E sec sd name = ?r"
    by (simp add: option_row_def shown_description_def config_value_def d v)
  from Cons.IH [OF step len] Cons.prems(2) show ?case
    by (simp add: r)
qed

lemma SettingOptionCompletionModel_rows:
  assumes "SettingOptionCompletionModel_init E DATA sec = Inr s"
    and "map_of DATA sec = Some sd"
  shows "option_model s =
           [\<lparr>cat_name = sec, cat_sort = None,
             cat_rows = map (option_row E sec sd) (sect_keys sd)\<rparr>]"
proof -
  from assms have "fill_options E sec sd 0 (sect_keys sd)
      \<lparr>option_model = [\<lparr>cat_name = sec, cat_sort = None, cat_rows = []\<rparr>],
       misc_items = Map.empty\<rparr> = Inr s"
    by (simp add: SettingOptionCompletionModel_init_def new_category_def)
  from fill_options_rows [OF this] show ?thesis by simp
qed

lemma settings_options_rows:
  assumes "settings_options sectname sd c optnames m = Inr m'"
    and "c < length m"
  shows "m' = m[c := (m ! c)\<lparr>cat_rows := cat_rows (m ! c)
                 @ map (\<lambda>optname. entry_row (sectname @ ''->'' @ optname,
                                              shown_description sd optname)) optnames\<rparr>]"
  using assms
proof (induction optnames arbitrary: m)
  case Nil
  then show ?case by simp
next
  case (Cons optname optnames)
  from Cons.prems(1) obtain desc where d: "option_desc sd optname = Inr desc"
    by (auto split: sum.splits)
  let ?r = "\<lparr>row_name = PyStr (sectname @ ''->'' @ optname), row_desc = PyStr desc,
             row_misc = PyNone\<rparr>"
  let ?m = "m[c := (m ! c)\<lparr>cat_rows := cat_rows (m ! c) @ [?r]\<rparr>]"
  from Cons.prems d have step: "settings_options sectname sd c optnames ?m = Inr m'"
    by (simp add: new_item_rows)
  have len: "c < length ?m"
    using Cons.prems(2) by simp
  have r: "entry_row (sectname @ ''->'' @ optname, shown_description sd optname) = ?r"
    by (simp add: entry_row_def shown_description_def d)
  from Cons.IH [OF step len] Cons.prems(2) r show ?case
    by simp
qed

lemma settings_sections_rows:
  assumes "settings_sections c DATA m = Inr m'"
    and "c < length m"
  shows "m' = m[c := (m ! c)\<lparr>cat_rows := cat_rows (m ! c) @ help_rows DATA\<rparr>]"
  using assms
proof (induction DATA arbitrary: m)
  case Nil
  then show ?case by (simp add: help_rows_def)
next
  case (Cons x rest)
  obtain sectname sd where x: "x = (sectname, sd)" by (cases x)
  from Cons.prems(1) x obtain m1 where
    m1: "settings_options sectname sd c (sect_keys sd) m = Inr m1"
    and rest: "settings_sections c rest m1 = Inr m'"
    by (auto split: sum.splits)
  from settings_options_rows [OF m1 Cons.prems(2)]
  have m1_eq: "m1 = m[c := (m ! c)\<lparr>cat_rows := cat_rows (m ! c)
                 @ map (\<lambda>optname. entry_row (sectname @ ''->'' @ optname,
                                              shown_description sd optname))
                     (sect_keys sd)\<rparr>]" .
  then have len: "c < length m1"
    using Cons.prems(2) by simp
  from Cons.IH [OF rest len] m1_eq Cons.prems(2) show ?case
    by (simp add: x help_rows_def)
qed

lemma init_settings_rows:
  assumes "init_settings DATA m0 = Inr m"
  shows "m = m0 @ [\<lparr>cat_name = ''Settings'', cat_sort = None, cat_rows = help_rows DATA\<rparr>]"
proof -
  from assms have "settings_sections (length m0) DATA
      (m0 @ [\<lparr>cat_name = ''Settings'', cat_sort = None, cat_rows = []\<rparr>]) = Inr m"
    by (simp add: init_settings_def new_category_def)
  from settings_sections_rows [OF this] show ?thesis by simp
qed

subsection \<open>The Commands category\<close>

lemma command_entries_mset:
  assumes "mset objs = mset objs'"
  shows "mset (command_entries entry dbg objs) = mset (command_entries entry dbg objs')"
proof -
  have "mset (map entry (filter (listed dbg) objs))
      = image_mset entry (filter_mset (listed dbg) (mset objs))"
    by simp
  also have "\<dots> = image_mset entry (filter_mset (listed dbg) (mset objs'))"
    using assms by simp
  also have "\<dots> = mset (map entry (filter (listed dbg) objs'))"
    by simp
  finally show ?thesis by (simp add: command_entries_def)
qed

lemma init_commands_result:
  assumes "cmd_dict \<noteq> []"
  shows "init_commands iter dbg cmd_dict m0 =
           Inr (m0 @ [\<lparr>cat_name = ''Commands'', cat_sort = None,
                       cat_rows = map entry_row (sort (command_entries
                         (\<lambda>obj. (CHR '':'' # cmd_name obj, cmd_desc obj)) dbg
                         (iter (map snd cmd_dict))))\<rparr>])"
  using assms by (simp add: init_commands_def new_category_def new_items_rows Let_def)

lemma CommandCompletionModel_init_result:
  assumes "cmd_dict \<noteq> []"
  shows "CommandCompletionModel_init iter dbg aliases cmd_dict =
           Inr [\<lparr>cat_name = ''Commands'', cat_sort = None,
                 cat_rows = map entry_row (sort (command_entries
                         (\<lambda>obj. (cmd_name obj, cmd_desc obj)) dbg (iter (map snd cmd_dict))
                       @ map alias_entry aliases))\<rparr>]"
  using assms
  by (simp add: CommandCompletionModel_init_def new_category_def new_items_rows Let_def)

text \<open>
  Claim C8. The Commands category of \<open>CommandCompletionModel\<close> and of
  \<open>HelpCompletionModel\<close> lists its entries in sorted order (ordered as pairs of name
  and description, strings compared character by character). Its entries are exactly
  the registered commands, each once, that are not hidden and not debug-only while
  debug mode is off, each with its description; \<open>CommandCompletionModel\<close> has in
  addition one entry per alias, described as Alias for the quoted command, and
  \<open>HelpCompletionModel\<close> puts a colon before every command name. The order in which
  the set of commands is iterated does not matter.
\<close>

theorem commands_category_sorted:
  assumes "cmd_dict \<noteq> []"
    and "mset (iter (map snd cmd_dict)) = mset (remdups (map snd cmd_dict))"
  shows "(\<exists>entries.
            CommandCompletionModel_init iter dbg aliases cmd_dict =
              Inr [\<lparr>cat_name = ''Commands'', cat_sort = None,
                    cat_rows = map entry_row entries\<rparr>]
            \<and> sorted entries
            \<and> mset entries =
                mset (map (\<lambda>obj. (cmd_name obj, cmd_desc obj))
                       (filter (\<lambda>obj. \<not> cmd_hide obj \<and> \<not> (cmd_debug obj \<and> \<not> dbg))
                          (remdups (map snd cmd_dict))))
                + mset (map (\<lambda>(name, cmd).
                               (name, ''Alias for '' @ [CHR 0x27] @ cmd @ [CHR 0x27]))
                          aliases))
       \<and> (\<exists>entries.
            init_commands iter dbg cmd_dict [] =
              Inr [\<lparr>cat_name = ''Commands'', cat_sort = None,
                    cat_rows = map entry_row entries\<rparr>]
            \<and> (\<forall>m. HelpCompletionModel_init iter dbg cmd_dict DATA = Inr m \<longrightarrow>
                   m ! 0 = \<lparr>cat_name = ''Commands'', cat_sort = None,
                            cat_rows = map entry_row entries\<rparr>)
            \<and> sorted entries
            \<and> mset entries =
                mset (map (\<lambda>obj. (CHR '':'' # cmd_name obj, cmd_desc obj))
                       (filter (\<lambda>obj. \<not> cmd_hide obj \<and> \<not> (cmd_debug obj \<and> \<not> dbg))
                          (remdups (map snd cmd_dict)))))"
proof (intro conjI)
  have listed: "listed dbg = (\<lambda>obj. \<not> cmd_hide obj \<and> \<not> (cmd_debug obj \<and> \<not> dbg))"
    by (auto simp: listed_def fun_eq_iff)
  have al: "alias_entry = (\<lambda>(name, cmd).
      (name, ''Alias for '' @ [CHR 0x27] @ cmd @ [CHR 0x27]))"
    by (simp add: alias_entry_def fun_eq_iff)
  let ?plain = "command_entries (\<lambda>obj. (cmd_name obj, cmd_desc obj)) dbg"
  let ?colon = "command_entries (\<lambda>obj. (CHR '':'' # cmd_name obj, cmd_desc obj)) dbg"
  let ?cmds = "sort (?plain (iter (map snd cmd_dict)) @ map alias_entry aliases)"
  let ?prefixed = "sort (?colon (iter (map snd cmd_dict)))"
  have "mset ?cmds = mset (?plain (remdups (map snd cmd_dict))) + mset (map alias_entry aliases)"
    using command_entries_mset [OF assms(2)] by simp
  then have "mset ?cmds =
      mset (map (\<lambda>obj. (cmd_name obj, cmd_desc obj))
             (filter (\<lambda>obj. \<not> cmd_hide obj \<and> \<not> (cmd_debug obj \<and> \<not> dbg))
                (remdups (map snd cmd_dict))))
      + mset (map (\<lambda>(name, cmd). (name, ''Alias for '' @ [CHR 0x27] @ cmd @ [CHR 0x27]))
                aliases)"
    by (simp only: command_entries_def listed al)
  moreover have "sorted ?cmds" by simp
  ultimately show "\<exists>entries.
            CommandCompletionModel_init iter dbg aliases cmd_dict =
              Inr [\<lparr>cat_name = ''Commands'', cat_sort = None,
                    cat_rows = map entry_row entries\<rparr>]
            \<and> sorted entries
            \<and> mset entries =
                mset (map (\<lambda>obj. (cmd_name obj, cmd_desc obj))
                       (filter (\<lambda>obj. \<not> cmd_hide obj \<and> \<not> (cmd_debug obj \<and> \<not> dbg))
                          (remdups (map snd cmd_dict))))
                + mset (map (\<lambda>(name, cmd).
                               (name, ''Alias for '' @ [CHR 0x27] @ cmd @ [CHR 0x27]))
                          aliases)"
    using CommandCompletionModel_init_result [OF assms(1), of iter dbg aliases] by blast
  have ic: "init_commands iter dbg cmd_dict [] =
      Inr [\<lparr>cat_name = ''Commands'', cat_sort = None, cat_rows = map entry_row ?prefixed\<rparr>]"
    using init_commands_result [OF assms(1), of iter dbg "[]"] by simp
  have "mset ?prefixed = mset (?colon (remdups (map snd cmd_dict)))"
    using command_entries_mset [OF assms(2)] by simp
  then have ms: "mset ?prefixed =
      mset (map (\<lambda>obj. (CHR '':'' # cmd_name obj, cmd_desc obj))
             (filter (\<lambda>obj. \<not> cmd_hide obj \<and> \<not> (cmd_debug obj \<and> \<not> dbg))
                (remdups (map snd cmd_dict))))"
    by (simp only: command_entries_def listed)
  have hm: "\<forall>m. HelpCompletionModel_init iter dbg cmd_dict DATA = Inr m \<longrightarrow>
      m ! 0 = \<lparr>cat_name = ''Commands'', cat_sort = None, cat_rows = map entry_row ?prefixed\<rparr>"
  proof (intro allI impI)
    fix m
    assume "HelpCompletionModel_init iter dbg cmd_dict DATA = Inr m"
    with ic have "init_settings DATA
        [\<lparr>cat_name = ''Commands'', cat_sort = None, cat_rows = map entry_row ?prefixed\<rparr>] = Inr m"
      by (simp add: HelpCompletionModel_init_def)
    from init_settings_rows [OF this]
    show "m ! 0 = \<lparr>cat_name = ''Commands'', cat_sort = None, cat_rows = map entry_row ?prefixed\<rparr>"
      by simp
  qed
  have "sorted ?prefixed" by simp
  with ic hm ms show "\<exists>entries.
            init_commands iter dbg cmd_dict [] =
              Inr [\<lparr>cat_name = ''Commands'', cat_sort = None,
                    cat_rows = map entry_row entries\<rparr>]
            \<and> (\<forall>m. HelpCompletionModel_init iter dbg cmd_dict DATA = Inr m \<longrightarrow>
                   m ! 0 = \<lparr>cat_name = ''Commands'', cat_sort = None,
                            cat_rows = map entry_row entries\<rparr>)
            \<and> sorted entries
            \<and> mset entries =
                mset (map (\<lambda>obj. (CHR '':'' # cmd_name obj, cmd_desc obj))
                       (filter (\<lambda>obj. \<not> cmd_hide obj \<and> \<not> (cmd_debug obj \<and> \<not> dbg))
                          (remdups (map snd cmd_dict))))"
    by blast
qed

lemma example_command_model:
  "CommandCompletionModel_init remdups False example_aliases example_commands
     = Inr [\<lparr>cat_name = ''Commands'', cat_sort = None, cat_rows = command_rows\<rparr>]"
  by code_simp

lemma example_help_model:
  "HelpCompletionModel_init remdups False example_commands example_data = Inr example_help"
  by code_simp

theorem commands_category_sorted_witness:
  "example_commands \<noteq> []
   \<and> mset (remdups (map snd example_commands)) = mset (remdups (map snd example_commands))
   \<and> CommandCompletionModel_init remdups False example_aliases example_commands
       = Inr [\<lparr>cat_name = ''Commands'', cat_sort = None, cat_rows = command_rows\<rparr>]
   \<and> HelpCompletionModel_init remdups False example_commands example_data = Inr example_help
   \<and> (\<exists>entries. example_help ! 0 = \<lparr>cat_name = ''Commands'', cat_sort = None,
                            cat_rows = map entry_row entries\<rparr>
        \<and> sorted entries
        \<and> mset entries =
            mset (map (\<lambda>obj. (CHR '':'' # cmd_name obj, cmd_desc obj))
                   (filter (\<lambda>obj. \<not> cmd_hide obj \<and> \<not> (cmd_debug obj \<and> \<not> False))
                      (remdups (map snd example_commands)))))"
proof -
  have ne: "example_commands \<noteq> []"
    by (simp add: example_commands_def)
  have it: "mset (remdups (map snd example_commands)) = mset (remdups (map snd example_commands))"
    by simp
  from commands_category_sorted [where iter = remdups and cmd_dict = example_commands
      and dbg = False and aliases = example_aliases and DATA = example_data,
      OF ne it, THEN conjunct2] example_help_model
  have "\<exists>entries. example_help ! 0 = \<lparr>cat_name = ''Commands'', cat_sort = None,
                            cat_rows = map entry_row entries\<rparr>
        \<and> sorted entries
        \<and> mset entries =
            mset (map (\<lambda>obj. (CHR '':'' # cmd_name obj, cmd_desc obj))
                   (filter (\<lambda>obj. \<not> cmd_hide obj \<and> \<not> (cmd_debug obj \<and> \<not> False))
                      (remdups (map snd example_commands))))"
    by blast
  with ne example_command_model example_help_model show ?thesis by simp
qed

text \<open>
  Claim C6. Missing configuration keys are defaulted, not raised. When the saved
  state has no geometry section, or no mainwindow key in it, or the saved value is
  rejected by the base64 decoder, \<open>MainWindow_init\<close> returns a window with the
  geometry \<^verbatim>\<open>QRect(50, 50, 800, 600)\<close>. When an option has no description entry (the
  section has no descriptions, or they have no such key), the row of that option in
  \<open>SettingOptionCompletionModel\<close> and in the Settings category of
  \<open>HelpCompletionModel\<close> has the empty string as its description.
\<close>

lemma splitlines_from_nonempty: "acc \<noteq> [] \<or> s \<noteq> [] \<Longrightarrow> splitlines_from acc s \<noteq> []"
  by (induction s arbitrary: acc) auto

lemma option_desc_total:
  assumes "\<not> empty_description sd name"
  shows "option_desc sd name = Inr (shown_description sd name)"
proof (cases "lookup_description sd name")
  case (Inl e)
  then have "(\<exists>k. e = KeyError k) \<or> (\<exists>a. e = AttributeError a)"
    by (auto simp: lookup_description_def split: option.splits)
  with Inl show ?thesis
    by (auto simp: option_desc_def shown_description_def)
next
  case (Inr desc)
  with assms have "desc \<noteq> []"
    by (auto simp: lookup_description_def empty_description_def split: option.splits)
  then have "splitlines desc \<noteq> []"
    by (simp add: splitlines_def splitlines_from_nonempty)
  then obtain l ls where "splitlines desc = l # ls"
    by (cases "splitlines desc") auto
  with Inr show ?thesis
    by (simp add: option_desc_def shown_description_def)
qed

text \<open>
  The loops over the options run to their end unless an option has an empty
  description or the configuration read raises.
\<close>

lemma fill_options_total:
  assumes "\<forall>name \<in> set names. \<not> empty_description sd name
             \<and> (\<exists>v. config_get E sec (Some name) = Inr v)"
    and "c < length (option_model s)"
  shows "\<exists>s'. fill_options E sec sd c names s = Inr s'"
  using assms
proof (induction names arbitrary: s)
  case Nil
  then show ?case by simp
next
  case (Cons name names)
  from Cons.prems(1) obtain v where v: "config_get E sec (Some name) = Inr v"
    and d: "option_desc sd name = Inr (shown_description sd name)"
    by (auto simp: option_desc_total)
  let ?s = "s\<lparr>option_model := (option_model s)[c := (option_model s ! c)
                \<lparr>cat_rows := cat_rows (option_model s ! c)
                   @ [\<lparr>row_name = PyStr name, row_desc = PyStr (shown_description sd name),
                       row_misc = v\<rparr>]\<rparr>],
              misc_items := (misc_items s)(name \<mapsto>
                 (c, length (cat_rows (option_model s ! c)), 2))\<rparr>"
  have step: "fill_options E sec sd c (name # names) s = fill_options E sec sd c names ?s"
    using Cons.prems(2) by (simp add: d v new_item_def Let_def)
  have "c < length (option_model ?s)"
    using Cons.prems(2) by simp
  with Cons.IH [of ?s] Cons.prems(1) show ?case
    by (simp only: step) simp
qed

lemma SettingOptionCompletionModel_init_total:
  assumes "map_of DATA sec = Some sd"
    and "\<forall>name \<in> set (sect_keys sd). \<not> empty_description sd name
             \<and> (\<exists>v. config_get E sec (Some name) = Inr v)"
  shows "\<exists>s. SettingOptionCompletionModel_init E DATA sec = Inr s"
  using fill_options_total [OF assms(2), of 0
      "\<lparr>option_model = [\<lparr>cat_name = sec, cat_sort = None, cat_rows = []\<rparr>],
        misc_items = Map.empty\<rparr>"] assms(1)
  by (simp add: SettingOptionCompletionModel_init_def new_category_def)

lemma settings_options_total:
  assumes "\<forall>optname \<in> set optnames. \<not> empty_description sd optname"
  shows "\<exists>m'. settings_options sectname sd c optnames m = Inr m'"
  using assms
  by (induction optnames arbitrary: m) (simp_all add: option_desc_total)

lemma settings_sections_total:
  assumes "\<forall>(sectname, sd) \<in> set DATA. \<forall>optname \<in> set (sect_keys sd).
             \<not> empty_description sd optname"
  shows "\<exists>m'. settings_sections c DATA m = Inr m'"
  using assms
proof (induction DATA arbitrary: m)
  case Nil
  then show ?case by simp
next
  case (Cons x rest)
  obtain sectname sd where x: "x = (sectname, sd)" by (cases x)
  from Cons.prems x have "\<forall>optname \<in> set (sect_keys sd). \<not> empty_description sd optname"
    by simp
  from settings_options_total [OF this] obtain m1 where
    "settings_options sectname sd c (sect_keys sd) m = Inr m1"
    by blast
  moreover from Cons.IH [of m1] Cons.prems obtain m' where
    "settings_sections c rest m1 = Inr m'"
    by auto
  ultimately show ?case by (simp add: x)
qed

lemma HelpCompletionModel_init_total:
  assumes "cmd_dict \<noteq> []"
    and "\<forall>(sectname, sd) \<in> set DATA. \<forall>optname \<in> set (sect_keys sd).
           \<not> empty_description sd optname"
  shows "\<exists>m. HelpCompletionModel_init iter dbg cmd_dict DATA = Inr m
             \<and> length m = 2
             \<and> m ! 1 = \<lparr>cat_name = ''Settings'', cat_sort = None,
                        cat_rows = help_rows DATA\<rparr>"
proof -
  let ?m0 = "[\<lparr>cat_name = ''Commands'', cat_sort = None,
               cat_rows = map entry_row (sort (command_entries
                 (\<lambda>obj. (CHR '':'' # cmd_name obj, cmd_desc obj)) dbg
                 (iter (map snd cmd_dict))))\<rparr>]"
  have ic: "init_commands iter dbg cmd_dict [] = Inr ?m0"
    using init_commands_result [OF assms(1), of iter dbg "[]"] by simp
  from settings_sections_total [OF assms(2)] obtain m where
    "settings_sections 1 DATA
       (?m0 @ [\<lparr>cat_name = ''Settings'', cat_sort = None, cat_rows = []\<rparr>]) = Inr m"
    by blast
  then have st: "init_settings DATA ?m0 = Inr m"
    by (simp add: init_settings_def new_category_def)
  from init_settings_rows [OF st] ic st show ?thesis
    by (simp add: HelpCompletionModel_init_def)
qed

text \<open>
  Claim C6. Missing configuration keys are defaulted, not raised. When the saved
  state has no geometry section, or no mainwindow key in it, or the saved value is
  rejected by the base64 decoder, \<open>MainWindow_init\<close> returns a window with the
  geometry \<^verbatim>\<open>QRect(50, 50, 800, 600)\<close>. A description lookup that finds no entry (the
  section has no descriptions, or they have no such key) yields the empty string and
  no error. So \<open>SettingOptionCompletionModel\<close>, when the configuration read returns
  for every option of the section and no option has the empty string as its
  description entry, returns its model, with one row per option, and the row of an
  option without a description entry has the empty description; and
  \<open>HelpCompletionModel\<close>, when there is a registered command and no option has the
  empty string as its description entry, returns its model, whose Settings rows have
  the empty description for every option without a description entry.
\<close>

theorem missing_keys_defaulted:
  "((stateconf ''geometry'' = None
       \<or> (\<exists>d. stateconf ''geometry'' = Some d
              \<and> (d ''mainwindow'' = None
                  \<or> (\<exists>saved. d ''mainwindow'' = Some saved
                         \<and> b64decode saved = Inl BinasciiError))))
     \<longrightarrow> MainWindow_init b64decode restoreGeometry stateconf initial st insp compl =
           Inr \<lparr>geometry = QRect_xywh 50 50 800 600, status = st,
                inspector = insp\<lparr>inspector_visible := False\<rparr>, completion = compl\<rparr>)
   \<and> (no_description sda nm \<longrightarrow> option_desc sda nm = Inr [])
   \<and> (map_of DATA sec = Some sd
        \<and> (\<forall>name \<in> set (sect_keys sd). \<not> empty_description sd name
               \<and> (\<exists>v. config_get E sec (Some name) = Inr v))
     \<longrightarrow> (\<exists>s. SettingOptionCompletionModel_init E DATA sec = Inr s
             \<and> option_model s =
                 [\<lparr>cat_name = sec, cat_sort = None,
                   cat_rows = map (option_row E sec sd) (sect_keys sd)\<rparr>]
             \<and> (\<forall>i < length (sect_keys sd). no_description sd (sect_keys sd ! i) \<longrightarrow>
                   row_name (cat_rows (option_model s ! 0) ! i) = PyStr (sect_keys sd ! i)
                   \<and> row_desc (cat_rows (option_model s ! 0) ! i) = PyStr [])))
   \<and> (cmd_dict \<noteq> []
        \<and> (\<forall>(sectname, sd') \<in> set DATA'. \<forall>optname \<in> set (sect_keys sd').
               \<not> empty_description sd' optname)
     \<longrightarrow> (\<exists>m. HelpCompletionModel_init iter dbg cmd_dict DATA' = Inr m
             \<and> length m = 2
             \<and> cat_name (m ! 1) = ''Settings''
             \<and> cat_rows (m ! 1) = help_rows DATA'
             \<and> (\<forall>(sectname, sd') \<in> set DATA'. \<forall>optname \<in> set (sect_keys sd').
                   no_description sd' optname \<longrightarrow>
                     \<lparr>row_name = PyStr (sectname @ ''->'' @ optname), row_desc = PyStr [],
                      row_misc = PyNone\<rparr> \<in> set (cat_rows (m ! 1)))))"
proof (intro conjI impI)
  assume "stateconf ''geometry'' = None
       \<or> (\<exists>d. stateconf ''geometry'' = Some d
              \<and> (d ''mainwindow'' = None
                  \<or> (\<exists>saved. d ''mainwindow'' = Some saved
                         \<and> b64decode saved = Inl BinasciiError)))"
  then have "initial_geometry b64decode restoreGeometry stateconf initial = Inr default_geometry"
    by (auto simp: initial_geometry_def stateconf_lookup_def)
  then show "MainWindow_init b64decode restoreGeometry stateconf initial st insp compl =
           Inr \<lparr>geometry = QRect_xywh 50 50 800 600, status = st,
                inspector = insp\<lparr>inspector_visible := False\<rparr>, completion = compl\<rparr>"
    by (simp add: MainWindow_init_def default_geometry_def hide_def)
next
  assume "no_description sda nm"
  then show "option_desc sda nm = Inr []"
    by (rule option_desc_no_description)
next
  assume a: "map_of DATA sec = Some sd
        \<and> (\<forall>name \<in> set (sect_keys sd). \<not> empty_description sd name
               \<and> (\<exists>v. config_get E sec (Some name) = Inr v))"
  then obtain s where s: "SettingOptionCompletionModel_init E DATA sec = Inr s"
    using SettingOptionCompletionModel_init_total [of DATA sec sd E] by blast
  with a have rows: "option_model s =
           [\<lparr>cat_name = sec, cat_sort = None,
             cat_rows = map (option_row E sec sd) (sect_keys sd)\<rparr>]"
    using SettingOptionCompletionModel_rows by blast
  have "\<forall>i < length (sect_keys sd). no_description sd (sect_keys sd ! i) \<longrightarrow>
          row_name (cat_rows (option_model s ! 0) ! i) = PyStr (sect_keys sd ! i)
          \<and> row_desc (cat_rows (option_model s ! 0) ! i) = PyStr []"
    by (simp add: rows option_row_def shown_description_no_description)
  with s rows show "\<exists>s. SettingOptionCompletionModel_init E DATA sec = Inr s
             \<and> option_model s =
                 [\<lparr>cat_name = sec, cat_sort = None,
                   cat_rows = map (option_row E sec sd) (sect_keys sd)\<rparr>]
             \<and> (\<forall>i < length (sect_keys sd). no_description sd (sect_keys sd ! i) \<longrightarrow>
                   row_name (cat_rows (option_model s ! 0) ! i) = PyStr (sect_keys sd ! i)
                   \<and> row_desc (cat_rows (option_model s ! 0) ! i) = PyStr [])"
    by blast
next
  assume a: "cmd_dict \<noteq> []
        \<and> (\<forall>(sectname, sd') \<in> set DATA'. \<forall>optname \<in> set (sect_keys sd').
               \<not> empty_description sd' optname)"
  then obtain m where m: "HelpCompletionModel_init iter dbg cmd_dict DATA' = Inr m"
    and len: "length m = 2"
    and m1: "m ! 1 = \<lparr>cat_name = ''Settings'', cat_sort = None, cat_rows = help_rows DATA'\<rparr>"
    using HelpCompletionModel_init_total [of cmd_dict DATA' iter dbg] by blast
  have "\<forall>(sectname, sd') \<in> set DATA'. \<forall>optname \<in> set (sect_keys sd').
          no_description sd' optname \<longrightarrow>
            \<lparr>row_name = PyStr (sectname @ ''->'' @ optname), row_desc = PyStr [],
             row_misc = PyNone\<rparr> \<in> set (help_rows DATA')"
  proof (intro ballI impI, clarify)
    fix sectname sd' optname
    assume b: "(sectname, sd') \<in> set DATA'" "optname \<in> set (sect_keys sd')"
      "no_description sd' optname"
    then have "entry_row (sectname @ ''->'' @ optname, shown_description sd' optname)
        \<in> set (help_rows DATA')"
      unfolding help_rows_def by force
    with b(3) show "\<lparr>row_name = PyStr (sectname @ ''->'' @ optname), row_desc = PyStr [],
             row_misc = PyNone\<rparr> \<in> set (help_rows DATA')"
      by (simp add: entry_row_def shown_description_no_description)
  qed
  with m len m1 show "\<exists>m. HelpCompletionModel_init iter dbg cmd_dict DATA' = Inr m
             \<and> length m = 2
             \<and> cat_name (m ! 1) = ''Settings''
             \<and> cat_rows (m ! 1) = help_rows DATA'
             \<and> (\<forall>(sectname, sd') \<in> set DATA'. \<forall>optname \<in> set (sect_keys sd').
                   no_description sd' optname \<longrightarrow>
                     \<lparr>row_name = PyStr (sectname @ ''->'' @ optname), row_desc = PyStr [],
                      row_misc = PyNone\<rparr> \<in> set (cat_rows (m ! 1)))"
    by (intro exI [of _ m]) simp
qed

lemma general_options_init:
  "SettingOptionCompletionModel_init example_env example_data ''general'' = Inr general_options"
  by (simp add: SettingOptionCompletionModel_init_def example_data_def general_section_def
      new_category_def new_item_def option_desc_def lookup_description_def splitlines_def
      is_linebreak_def example_env_def general_options_def general_rows_def Let_def)

theorem missing_keys_defaulted_witness:
  "saved_state ''geometry'' = Some [''mainwindow'' \<mapsto> ''not base64!'']
   \<and> reject_base64 ''not base64!'' = Inl BinasciiError
   \<and> MainWindow_init reject_base64 keep_geometry saved_state (QRect_xywh 0 0 640 480)
        (status example_window) (inspector example_window) (completion example_window)
      = Inr \<lparr>geometry = QRect_xywh 50 50 800 600, status = status example_window,
             inspector = (inspector example_window)\<lparr>inspector_visible := False\<rparr>,
             completion = completion example_window\<rparr>
   \<and> no_description general_section ''private''
   \<and> option_desc general_section ''private'' = Inr []
   \<and> map_of example_data ''general'' = Some general_section
   \<and> sect_keys general_section = [''editor'', ''private'']
   \<and> \<not> empty_description general_section ''editor''
   \<and> \<not> empty_description general_section ''private''
   \<and> config_get example_env ''general'' (Some ''editor'') = Inr (PyStr ''vim'')
   \<and> config_get example_env ''general'' (Some ''private'') = Inr (PyStr [])
   \<and> SettingOptionCompletionModel_init example_env example_data ''general''
       = Inr general_options
   \<and> row_name (cat_rows (option_model general_options ! 0) ! 1) = PyStr ''private''
   \<and> row_desc (cat_rows (option_model general_options ! 0) ! 1) = PyStr []
   \<and> example_commands \<noteq> []
   \<and> example_data = [(''general'', general_section), (''searchengines'', searchengines_section)]
   \<and> sect_keys searchengines_section = [''DEFAULT'']
   \<and> \<not> empty_description searchengines_section ''DEFAULT''
   \<and> HelpCompletionModel_init remdups False example_commands example_data = Inr example_help
   \<and> no_description searchengines_section ''DEFAULT''
   \<and> \<lparr>row_name = PyStr ''searchengines->DEFAULT'', row_desc = PyStr [], row_misc = PyNone\<rparr>
        \<in> set (cat_rows (example_help ! 1))"
proof -
  note t = missing_keys_defaulted [where stateconf = saved_state and b64decode = reject_base64
      and restoreGeometry = keep_geometry and initial = "QRect_xywh 0 0 640 480"
      and st = "status example_window" and insp = "inspector example_window"
      and compl = "completion example_window"
      and sda = general_section and nm = "''private''"
      and E = example_env and DATA = example_data and sec = "''general''"
      and sd = general_section
      and iter = remdups and dbg = False and cmd_dict = example_commands
      and DATA' = example_data]
  have g: "saved_state ''geometry'' = Some [''mainwindow'' \<mapsto> ''not base64!'']"
    "reject_base64 ''not base64!'' = Inl BinasciiError"
    by (simp_all add: saved_state_def reject_base64_def)
  from t [THEN conjunct1] g
  have a: "MainWindow_init reject_base64 keep_geometry saved_state (QRect_xywh 0 0 640 480)
        (status example_window) (inspector example_window) (completion example_window)
      = Inr \<lparr>geometry = QRect_xywh 50 50 800 600, status = status example_window,
             inspector = (inspector example_window)\<lparr>inspector_visible := False\<rparr>,
             completion = completion example_window\<rparr>"
    by simp
  have n: "no_description general_section ''private''"
    "no_description searchengines_section ''DEFAULT''"
    by (simp_all add: general_section_def searchengines_section_def no_description_def)
  from t [THEN conjunct2, THEN conjunct1] n
  have d: "option_desc general_section ''private'' = Inr []"
    by simp
  have o: "map_of example_data ''general'' = Some general_section"
    "\<forall>name \<in> set (sect_keys general_section). \<not> empty_description general_section name
         \<and> (\<exists>v. config_get example_env ''general'' (Some name) = Inr v)"
    by (simp_all add: example_data_def general_section_def empty_description_def
        example_env_def)
  have k: "(1::nat) < length (sect_keys general_section)"
    "sect_keys general_section ! 1 = ''private''"
    by (simp_all add: general_section_def)
  from t [THEN conjunct2, THEN conjunct2, THEN conjunct1] o general_options_init
  have "\<forall>i < length (sect_keys general_section).
          no_description general_section (sect_keys general_section ! i) \<longrightarrow>
            row_name (cat_rows (option_model general_options ! 0) ! i)
              = PyStr (sect_keys general_section ! i)
            \<and> row_desc (cat_rows (option_model general_options ! 0) ! i) = PyStr []"
    by auto
  with k n have b: "row_name (cat_rows (option_model general_options ! 0) ! 1) = PyStr ''private''"
    "row_desc (cat_rows (option_model general_options ! 0) ! 1) = PyStr []"
    by metis+
  have h: "example_commands \<noteq> []"
    "\<forall>(sectname, sd') \<in> set example_data. \<forall>optname \<in> set (sect_keys sd').
         \<not> empty_description sd' optname"
    by (simp_all add: example_commands_def example_data_def general_section_def
        searchengines_section_def empty_description_def)
  have mem: "(''searchengines'', searchengines_section) \<in> set example_data"
    "''DEFAULT'' \<in> set (sect_keys searchengines_section)"
    by (simp_all add: example_data_def searchengines_section_def)
  from t [THEN conjunct2, THEN conjunct2, THEN conjunct2] h example_help_model
  have "\<forall>(sectname, sd') \<in> set example_data. \<forall>optname \<in> set (sect_keys sd').
          no_description sd' optname \<longrightarrow>
            \<lparr>row_name = PyStr (sectname @ ''->'' @ optname), row_desc = PyStr [],
             row_misc = PyNone\<rparr> \<in> set (cat_rows (example_help ! 1))"
    by auto
  with mem n have "\<lparr>row_name = PyStr (''searchengines'' @ ''->'' @ ''DEFAULT''),
         row_desc = PyStr [], row_misc = PyNone\<rparr> \<in> set (cat_rows (example_help ! 1))"
    by fast
  then have c: "\<lparr>row_name = PyStr ''searchengines->DEFAULT'', row_desc = PyStr [],
            row_misc = PyNone\<rparr> \<in> set (cat_rows (example_help ! 1))"
    by simp
  have e: "sect_keys general_section = [''editor'', ''private'']"
    "\<not> empty_description general_section ''editor''"
    "\<not> empty_description general_section ''private''"
    "config_get example_env ''general'' (Some ''editor'') = Inr (PyStr ''vim'')"
    "config_get example_env ''general'' (Some ''private'') = Inr (PyStr [])"
    "sect_keys searchengines_section = [''DEFAULT'']"
    "\<not> empty_description searchengines_section ''DEFAULT''"
    by (simp_all add: general_section_def searchengines_section_def empty_description_def
        example_env_def)
  from g a n d o(1) e general_options_init b h(1) example_help_model c show ?thesis
    by (simp add: example_data_def)
qed

end
